theory Spec2Isabelle
  imports Complex_Main "HOL-Library.AList"
begin

section \<open>JavaScript strings\<close>

text \<open>
  A JavaScript string is a sequence of UTF-16 code units; \<open>length\<close>, \<open>replace\<close>,
  \<open>includes\<close>, \<open>startsWith\<close>, \<open>trim\<close> and the regular expressions of the sources
  (none carries the \<open>u\<close> flag) all work on code units. A code unit is a natural number;
  \<open>ascii\<close> writes an ASCII literal.
\<close>

type_synonym jsstring = "nat list"

definition ascii :: "string \<Rightarrow> jsstring" where
  "ascii s = map of_char s"

text \<open>The regular-expression class \<open>\d\<close>: the ten ASCII digits.\<close>

definition isDigit :: "nat \<Rightarrow> bool" where
  "isDigit c = (48 \<le> c \<and> c \<le> 57)"

text \<open>Line terminators: LF, CR, U+2028, U+2029. The regular-expression dot matches
  every code unit but these.\<close>

definition isLineTerminator :: "nat \<Rightarrow> bool" where
  "isLineTerminator c = (c = 10 \<or> c = 13 \<or> c = 8232 \<or> c = 8233)"

text \<open>The class \<open>\s\<close>, which is also what \<open>trim\<close> strips: white space and line
  terminators.\<close>

definition isWhiteSpace :: "nat \<Rightarrow> bool" where
  "isWhiteSpace c =
     (c = 9 \<or> c = 10 \<or> c = 11 \<or> c = 12 \<or> c = 13 \<or> c = 32 \<or> c = 160 \<or> c = 5760
      \<or> (8192 \<le> c \<and> c \<le> 8202) \<or> c = 8232 \<or> c = 8233 \<or> c = 8239 \<or> c = 8287
      \<or> c = 12288 \<or> c = 65279)"

definition trim :: "jsstring \<Rightarrow> jsstring" where
  "trim s = rev (dropWhile isWhiteSpace (rev (dropWhile isWhiteSpace s)))"

definition js_startsWith :: "jsstring \<Rightarrow> jsstring \<Rightarrow> bool" where
  "js_startsWith p s = (take (length p) s = p)"

text \<open>\<open>s.includes(p)\<close>: \<open>p\<close> occurs in \<open>s\<close> at some position.\<close>

fun js_includes :: "jsstring \<Rightarrow> jsstring \<Rightarrow> bool" where
  "js_includes p [] = (p = [])"
| "js_includes p (c # cs) = (js_startsWith p (c # cs) \<or> js_includes p cs)"

section \<open>WhatsAppHandler (src/whatsapp-handler.js)\<close>

subsection \<open>The registry of clients\<close>

text \<open>
  \<open>this.clients\<close> is a JavaScript \<open>Map\<close> from session id to client: an association list
  in insertion order. \<open>has\<close>/\<open>get\<close> are \<open>map_of\<close>, \<open>set\<close> is \<open>AList.update\<close>, \<open>delete\<close> is
  \<open>AList.delete\<close>, and \<open>size\<close> counts the keys.
  A client is the adapter object built by \<open>new Client\<close> for a \<open>clientId\<close>; what the
  adapter does (construction, \<open>destroy\<close>, sending) is outside the repository and enters
  the model as a parameter whose result may be an exception.
\<close>

type_synonym sessionId = jsstring

record client =
  clientId :: sessionId

datatype error =
    MaxSessions int
  | SessionNotFound sessionId
  | AdapterError jsstring

type_synonym registry = "(sessionId \<times> client) list"

definition map_size :: "('k \<times> 'v) list \<Rightarrow> nat" where
  "map_size m = length (remdups (map fst m))"

record handler =
  clients :: registry
  sessionDirs :: "jsstring list"

text \<open>\<open>parseInt(process.env.MAX_SESSIONS) || 10\<close>: an unset or unparsable variable is
  \<open>NaN\<close> (here \<open>None\<close>), and \<open>NaN\<close> and \<open>0\<close> are falsy.\<close>

definition maxSessions_of_env :: "int option \<Rightarrow> int" where
  "maxSessions_of_env e = (case e of None \<Rightarrow> 10 | Some n \<Rightarrow> if n = 0 then 10 else n)"

text \<open>
  \<open>createClient\<close> (lines 65-129). \<open>newClient\<close> is the constructor call inside the
  \<open>try\<close>; the \<open>catch\<close> logs and rethrows, so a failed construction is the caller's error
  and nothing is registered.
\<close>

definition createClient ::
  "(sessionId \<Rightarrow> error + client) \<Rightarrow> int \<Rightarrow> handler \<Rightarrow> sessionId \<Rightarrow> (error + client) \<times> handler"
where
  "createClient newClient maxSessions h sid =
     (case map_of (clients h) sid of
        Some c \<Rightarrow> (Inr c, h)
      | None \<Rightarrow>
          if maxSessions \<le> int (map_size (clients h)) then (Inl (MaxSessions maxSessions), h)
          else (case newClient sid of
                  Inl e \<Rightarrow> (Inl e, h)
                | Inr c \<Rightarrow> (Inr c, h\<lparr>clients := AList.update sid c (clients h)\<rparr>)))"

text \<open>
  \<open>cleanupSession\<close> (lines 279-295): removes the directory \<open>session-<id>\<close> when
  \<open>fs.access\<close> finds it; every error (a missing directory, a failing \<open>fs.rm\<close>) is caught
  and logged, so the function has no error result. \<open>rmFails\<close> says for which
  directories \<open>fs.rm\<close> throws.
\<close>

definition sessionDir :: "sessionId \<Rightarrow> jsstring" where
  "sessionDir sid = ascii ''session-'' @ sid"

definition cleanupSession :: "(jsstring \<Rightarrow> bool) \<Rightarrow> handler \<Rightarrow> sessionId \<Rightarrow> handler" where
  "cleanupSession rmFails h sid =
     (if sessionDir sid \<in> set (sessionDirs h) \<and> \<not> rmFails (sessionDir sid)
      then h\<lparr>sessionDirs := removeAll (sessionDir sid) (sessionDirs h)\<rparr>
      else h)"

text \<open>
  \<open>destroySession\<close> (lines 253-277). \<open>destroySession_try\<close> is the body of the \<open>try\<close>
  block: \<open>client.destroy()\<close> may throw, and then the statements after it are skipped.
  \<open>destroySession\<close> adds the lookup before the block and the \<open>catch\<close> after it.
\<close>

definition destroySession_try ::
  "(client \<Rightarrow> error option) \<Rightarrow> (jsstring \<Rightarrow> bool) \<Rightarrow> handler \<Rightarrow> sessionId \<Rightarrow> client
     \<Rightarrow> (error + bool) \<times> handler"
where
  "destroySession_try destroy rmFails h sid c =
     (case destroy c of
        Some e \<Rightarrow> (Inl e, h)
      | None \<Rightarrow>
          (Inr True,
           cleanupSession rmFails (h\<lparr>clients := AList.delete sid (clients h)\<rparr>) sid))"

definition destroySession ::
  "(client \<Rightarrow> error option) \<Rightarrow> (jsstring \<Rightarrow> bool) \<Rightarrow> handler \<Rightarrow> sessionId
     \<Rightarrow> (error + bool) \<times> handler"
where
  "destroySession destroy rmFails h sid =
     (case map_of (clients h) sid of
        None \<Rightarrow> (Inr False, h)
      | Some c \<Rightarrow>
          (case destroySession_try destroy rmFails h sid c of
             (Inr b, h') \<Rightarrow> (Inr b, h')
           | (Inl e, h') \<Rightarrow> (Inr False, h'\<lparr>clients := AList.delete sid (clients h')\<rparr>)))"

subsection \<open>Phone numbers and direct sending\<close>

text \<open>
  \<open>formatPhoneNumber\<close> (lines 200-215): \<open>replace(/\D/g, '')\<close> keeps the digits; then the
  two conditionals, in the source's order.
\<close>

definition formatPhoneNumber :: "jsstring \<Rightarrow> jsstring" where
  "formatPhoneNumber number =
     (let formatted = filter isDigit number;
          formatted = (if \<not> js_startsWith (ascii ''91'') formatted \<and> length formatted = 10
                       then ascii ''91'' @ formatted else formatted)
      in if \<not> js_includes (ascii ''@c.us'') formatted
         then formatted @ ascii ''@c.us'' else formatted)"

text \<open>
  \<open>sendMessage\<close> (lines 144-174). The calls made on the adapter are recorded in order;
  each may throw, which ends the \<open>try\<close> block, and the \<open>catch\<close> rethrows. The pause of
  the typing simulation is \<open>Math.min(message.length * 50, 3000)\<close> milliseconds.
\<close>

datatype adapter_call =
    GetChatById jsstring
  | SendStateTyping jsstring
  | Sleep nat
  | SendMessage jsstring jsstring

fun perform :: "(adapter_call \<Rightarrow> error option) \<Rightarrow> adapter_call list \<Rightarrow> error option \<times> adapter_call list" where
  "perform adapter [] = (None, [])"
| "perform adapter (c # cs) =
     (case adapter c of
        Some e \<Rightarrow> (Some e, [c])
      | None \<Rightarrow> (case perform adapter cs of (r, done) \<Rightarrow> (r, c # done)))"

definition sendMessage ::
  "bool \<Rightarrow> (adapter_call \<Rightarrow> error option) \<Rightarrow> handler \<Rightarrow> sessionId \<Rightarrow> jsstring \<Rightarrow> jsstring
     \<Rightarrow> error option \<times> adapter_call list"
where
  "sendMessage typingSimulation adapter h sid to message =
     (case map_of (clients h) sid of
        None \<Rightarrow> (Some (SessionNotFound sid), [])
      | Some c \<Rightarrow>
          (let formattedNumber = formatPhoneNumber to in
           perform adapter
             ((if typingSimulation
               then [GetChatById formattedNumber, SendStateTyping formattedNumber,
                     Sleep (min (length message * 50) 3000)]
               else [])
              @ [SendMessage formattedNumber message])))"

fun target :: "adapter_call \<Rightarrow> jsstring option" where
  "target (GetChatById t) = Some t"
| "target (SendStateTyping t) = Some t"
| "target (Sleep n) = None"
| "target (SendMessage t m) = Some t"


text \<open>Concrete collaborators for evaluating the handler: an adapter whose calls all
  succeed, one whose \<open>destroy\<close> throws, a constructor that succeeds, and a file system
  whose \<open>rm\<close> never fails.\<close>

definition adapterOk :: "adapter_call \<Rightarrow> error option" where
  "adapterOk c = None"

definition destroyOk :: "client \<Rightarrow> error option" where
  "destroyOk c = None"

definition destroyFails :: "client \<Rightarrow> error option" where
  "destroyFails c = Some (AdapterError (ascii ''Protocol error''))"

definition newClientOk :: "sessionId \<Rightarrow> error + client" where
  "newClientOk sid = Inr \<lparr>clientId = sid\<rparr>"

definition rmOk :: "jsstring \<Rightarrow> bool" where
  "rmOk d = False"

definition emptyHandler :: handler where
  "emptyHandler = \<lparr>clients = [], sessionDirs = []\<rparr>"

text \<open>A delivery target: digits followed by \<open>@c.us\<close> (five code units).\<close>

definition isDeliveryTarget :: "jsstring \<Rightarrow> bool" where
  "isDeliveryTarget t =
     (list_all isDigit (take (length t - 5) t) \<and> drop (length t - 5) t = ascii ''@c.us'')"

definition oneClient :: handler where
  "oneClient =
     \<lparr>clients = [(ascii ''s1'', \<lparr>clientId = ascii ''s1''\<rparr>)],
      sessionDirs = [sessionDir (ascii ''s1'')]\<rparr>"

section \<open>AIReply (ai-reply.js, the second file of src/unnamed/part_000)\<close>

subsection \<open>Language detection\<close>

text \<open>
  The categories \<open>detectLanguage\<close> returns. (\<open>languagePatterns\<close> also has a \<open>marathi\<close>
  entry, which no code reads.)
\<close>

datatype language = Hinglish | Hindi | English | Urdu | Bengali | Tamil | Gujarati

text \<open>The character classes of \<open>languagePatterns\<close> (lines 394-403).\<close>

definition isLatin :: "nat \<Rightarrow> bool" where
  "isLatin c = ((65 \<le> c \<and> c \<le> 90) \<or> (97 \<le> c \<and> c \<le> 122))"

definition isDevanagari :: "nat \<Rightarrow> bool" where
  "isDevanagari c = (2304 \<le> c \<and> c \<le> 2431)"

definition isArabic :: "nat \<Rightarrow> bool" where
  "isArabic c = (1536 \<le> c \<and> c \<le> 1791)"

definition isBengali :: "nat \<Rightarrow> bool" where
  "isBengali c = (2432 \<le> c \<and> c \<le> 2559)"

definition isTamil :: "nat \<Rightarrow> bool" where
  "isTamil c = (2944 \<le> c \<and> c \<le> 3071)"

definition isGujarati :: "nat \<Rightarrow> bool" where
  "isGujarati c = (2688 \<le> c \<and> c \<le> 2815)"

text \<open>The class \<open>[a-zA-Z\s.,!?'"]\<close> of the \<open>english\<close> pattern.\<close>

definition isEnglishChar :: "nat \<Rightarrow> bool" where
  "isEnglishChar c =
     (isLatin c \<or> isWhiteSpace c \<or> c = 46 \<or> c = 44 \<or> c = 33 \<or> c = 63 \<or> c = 39 \<or> c = 34)"

text \<open>
  \<open>replace(/https?:\/\/[^\s]+/g, '')\<close>. \<open>matchUrl s\<close> is the match of the pattern at
  the start of \<open>s\<close>, as what is left of \<open>s\<close> after it: \<open>http\<close>, an optional \<open>s\<close>,
  \<open>://\<close>, and then all the code units up to the next white space, at least one. (When
  the \<open>s\<close> is there and \<open>://\<close> does not follow it, giving the \<open>s\<close> back does not help:
  \<open>://\<close> would have to start with that \<open>s\<close>.) A global replace scans from the left and
  goes on after each match.
\<close>

definition matchUrl :: "jsstring \<Rightarrow> jsstring option" where
  "matchUrl s =
     (if js_startsWith (ascii ''http'') s then
        (let s1 = drop 4 s;
             s2 = (if js_startsWith (ascii ''s'') s1 then drop 1 s1 else s1)
         in if js_startsWith (ascii ''://'') s2 then
              (case drop 3 s2 of
                 [] \<Rightarrow> None
               | c # cs \<Rightarrow> if isWhiteSpace c then None
                           else Some (dropWhile (\<lambda>x. \<not> isWhiteSpace x) cs))
            else None)
      else None)"

lemma drop_Cons_shorter: "drop k s = a # b \<Longrightarrow> length (dropWhile P b) < length s"
proof -
  assume "drop k s = a # b"
  then have "length (drop k s) = Suc (length b)" by simp
  then have "length b < length s" by simp
  moreover have "length (dropWhile P b) \<le> length b" by (rule length_dropWhile_le)
  ultimately show ?thesis by simp
qed

lemma matchUrl_shorter: "matchUrl s = Some r \<Longrightarrow> length r < length s"
  by (auto simp: matchUrl_def Let_def split: if_splits list.splits intro: drop_Cons_shorter)

function removeUrls :: "jsstring \<Rightarrow> jsstring" where
  "removeUrls [] = []"
| "removeUrls (c # cs) =
     (case matchUrl (c # cs) of
        Some rest \<Rightarrow> removeUrls rest
      | None \<Rightarrow> c # removeUrls cs)"
  by pat_completeness auto
termination
  by (relation "measure length") (auto dest: matchUrl_shorter)

text \<open>\<open>replace(/\d+/g, '')\<close> removes every run of digits, that is every digit.\<close>

definition removeDigits :: "jsstring \<Rightarrow> jsstring" where
  "removeDigits s = filter (\<lambda>c. \<not> isDigit c) s"

definition cleanText :: "jsstring \<Rightarrow> jsstring" where
  "cleanText text = trim (removeDigits (removeUrls text))"

text \<open>
  The \<open>hinglish\<close> pattern is
  \<open>/(?=.*[a-zA-Z])(?=.*[U+0900-U+097F])|(?=.*[a-zA-Z])(?=.*(?:hai|hain|...|par))/i\<close>.
  A lookahead \<open>(?=.*X)\<close> at a position holds when \<open>X\<close> matches at that position or
  further on with no line terminator in between, since the dot does not match one:
  \<open>sees\<close> for a character class and \<open>seesMarker\<close> for the marker words. Under the \<open>i\<close>
  flag, without \<open>u\<close>, a code unit matches an ASCII letter of the pattern exactly when it
  is that letter in either case (a code unit of 128 or more is never canonicalised to an
  ASCII one), so the classes are unchanged and the words are compared after \<open>upper\<close>.
  The pattern is not anchored: \<open>test\<close> tries every position of the string.
\<close>

fun sees :: "(nat \<Rightarrow> bool) \<Rightarrow> jsstring \<Rightarrow> bool" where
  "sees P [] = False"
| "sees P (c # cs) = (P c \<or> (\<not> isLineTerminator c \<and> sees P cs))"

definition upper :: "nat \<Rightarrow> nat" where
  "upper c = (if 97 \<le> c \<and> c \<le> 122 then c - 32 else c)"

definition markers :: "jsstring list" where
  "markers = map ascii [''hai'', ''hain'', ''kya'', ''kaise'', ''kaha'', ''kab'', ''kyun'', ''jo'',
     ''ki'', ''ka'', ''ke'', ''ko'', ''me'', ''se'', ''pe'', ''par'']"

definition startsMarker :: "jsstring \<Rightarrow> bool" where
  "startsMarker s = list_ex (\<lambda>w. map upper (take (length w) s) = map upper w) markers"

fun seesMarker :: "jsstring \<Rightarrow> bool" where
  "seesMarker [] = False"
| "seesMarker (c # cs) = (startsMarker (c # cs) \<or> (\<not> isLineTerminator c \<and> seesMarker cs))"

definition hinglishAt :: "jsstring \<Rightarrow> bool" where
  "hinglishAt s = ((sees isLatin s \<and> sees isDevanagari s) \<or> (sees isLatin s \<and> seesMarker s))"

fun hinglishTest :: "jsstring \<Rightarrow> bool" where
  "hinglishTest [] = hinglishAt []"
| "hinglishTest (c # cs) = (hinglishAt (c # cs) \<or> hinglishTest cs)"

text \<open>\<open>detectLanguage\<close> (lines 463-484), the tests in the source's order.\<close>

definition detectLanguage :: "jsstring \<Rightarrow> language" where
  "detectLanguage text =
     (let cleaned = cleanText text in
      if hinglishTest cleaned then Hinglish
      else if list_ex isDevanagari cleaned then Hindi
      else if list_ex isArabic cleaned then Urdu
      else if list_ex isBengali cleaned then Bengali
      else if list_ex isTamil cleaned then Tamil
      else if list_ex isGujarati cleaned then Gujarati
      else if list_all isEnglishChar cleaned then English
      else Hinglish)"

subsection \<open>Conversation history and rate limits\<close>

text \<open>
  A conversation turn as \<open>updateConversationHistory\<close> stores it; the timestamp is the
  time of \<open>new Date()\<close> in milliseconds. \<open>conversationHistory\<close> and \<open>rateLimits\<close> are
  \<open>Map\<close>s keyed by the contact's number.
\<close>

record conversationTurn =
  userMessage :: jsstring
  aiReply :: jsstring
  language :: language
  timestamp :: int

record userLimits =
  count :: int
  resetTime :: int

record aiReplyState =
  conversationHistory :: "jsstring \<rightharpoonup> conversationTurn list"
  rateLimits :: "jsstring \<rightharpoonup> userLimits"

definition getConversationHistory ::
  "(jsstring \<rightharpoonup> conversationTurn list) \<Rightarrow> jsstring \<Rightarrow> conversationTurn list" where
  "getConversationHistory hist fromNumber = (case hist fromNumber of Some h \<Rightarrow> h | None \<Rightarrow> [])"

text \<open>\<open>updateConversationHistory\<close> (lines 645-661): \<open>push\<close>, then \<open>shift\<close> when the
  length is over 10, then \<open>set\<close>.\<close>

definition updateConversationHistory ::
  "int \<Rightarrow> (jsstring \<rightharpoonup> conversationTurn list) \<Rightarrow> jsstring \<Rightarrow> jsstring \<Rightarrow> jsstring \<Rightarrow> language
     \<Rightarrow> (jsstring \<rightharpoonup> conversationTurn list)"
where
  "updateConversationHistory now hist fromNumber userMsg reply lang =
     (let history = getConversationHistory hist fromNumber
                      @ [\<lparr>userMessage = userMsg, aiReply = reply, language = lang, timestamp = now\<rparr>];
          history = (if length history > 10 then tl history else history)
      in hist(fromNumber \<mapsto> history))"

text \<open>
  JavaScript values as far as \<open>checkRateLimit\<close> needs them: the operands of \<open>||\<close> are a
  boolean and a number, \<open>a || b\<close> is \<open>a\<close> when \<open>a\<close> is truthy and \<open>b\<close> otherwise, and a
  number is truthy unless it is zero. \<open>parseInt\<close> of an unset or unparsable variable is
  \<open>NaN\<close> (here \<open>None\<close>), and every comparison with \<open>NaN\<close> is false.
\<close>

datatype jsval = JBool bool | JNum int

fun truthy :: "jsval \<Rightarrow> bool" where
  "truthy (JBool b) = b"
| "truthy (JNum n) = (n \<noteq> 0)"

definition js_or :: "jsval \<Rightarrow> jsval \<Rightarrow> jsval" where
  "js_or a b = (if truthy a then a else b)"

definition js_ge :: "int \<Rightarrow> int option \<Rightarrow> bool" where
  "js_ge a b = (case b of None \<Rightarrow> False | Some n \<Rightarrow> a \<ge> n)"

text \<open>
  \<open>checkRateLimit\<close> (lines 663-682). \<open>envLimit\<close> is
  \<open>parseInt(process.env.MESSAGE_RATE_LIMIT)\<close>. The condition of the second \<open>if\<close> is
  written \<open>userLimits.count >= parseInt(...) || 2\<close>; \<open>>=\<close> binds tighter than \<open>||\<close>, so
  it is \<open>(count >= limit) || 2\<close>. When the contact has an entry, \<open>userLimits\<close> is that
  stored object and the reset of the first \<open>if\<close> changes it in place, before the second
  \<open>if\<close> returns.
\<close>

definition checkRateLimit ::
  "int option \<Rightarrow> int \<Rightarrow> (jsstring \<rightharpoonup> userLimits) \<Rightarrow> jsstring \<Rightarrow> bool \<times> (jsstring \<rightharpoonup> userLimits)"
where
  "checkRateLimit envLimit now limits fromNumber =
     (let stored = limits fromNumber;
          lim = (case stored of Some l \<Rightarrow> l | None \<Rightarrow> \<lparr>count = 0, resetTime = now\<rparr>);
          lim = (if now > resetTime lim then \<lparr>count = 0, resetTime = now + 60000\<rparr> else lim);
          limits = (case stored of Some l \<Rightarrow> limits(fromNumber \<mapsto> lim) | None \<Rightarrow> limits)
      in if truthy (js_or (JBool (js_ge (count lim) envLimit)) (JNum 2)) then (False, limits)
         else (True, limits(fromNumber \<mapsto> lim\<lparr>count := count lim + 1\<rparr>)))"

text \<open>\<open>cleanupOldConversations\<close> (lines 698-730): both loops delete entries, each
  entry decided on its own.\<close>

definition cleanupOldConversations :: "int \<Rightarrow> aiReplyState \<Rightarrow> aiReplyState" where
  "cleanupOldConversations now st =
     \<lparr>conversationHistory = (\<lambda>k. case conversationHistory st k of
          None \<Rightarrow> None
        | Some h \<Rightarrow> if h = [] then None
                    else if now - timestamp (last h) > 24 * 60 * 60 * 1000 then None
                    else Some h),
      rateLimits = (\<lambda>k. case rateLimits st k of
          None \<Rightarrow> None
        | Some l \<Rightarrow> if now > resetTime l + 300000 then None else Some l)\<rparr>"

text \<open>The \<open>/clear\<close> command of \<open>handleSpecialCommands\<close> (line 766) and \<open>shutdown\<close>
  (lines 860-865).\<close>

definition clearHistory :: "aiReplyState \<Rightarrow> jsstring \<Rightarrow> aiReplyState" where
  "clearHistory st fromNumber = st\<lparr>conversationHistory := (conversationHistory st)(fromNumber := None)\<rparr>"

definition shutdown :: "aiReplyState \<Rightarrow> aiReplyState" where
  "shutdown st = \<lparr>conversationHistory = Map.empty, rateLimits = Map.empty\<rparr>"

subsection \<open>The completion call and the reply\<close>

text \<open>
  \<open>cleanAIResponse\<close> (lines 621-639). The three markup patterns have the shape
  \<open>d(.*?)d\<close> for a delimiter \<open>d\<close> (\<open>**\<close>, \<open>*\<close> and the backquote) and are replaced by
  their group: after an opening delimiter, \<open>findClose\<close> looks for the nearest closing one
  with no line terminator before it (the group is lazy and the dot stops at a line
  terminator) and returns the group and what follows the match. Where the pattern does
  not match, the scan moves one code unit on.
\<close>

fun findClose :: "jsstring \<Rightarrow> jsstring \<Rightarrow> (jsstring \<times> jsstring) option" where
  "findClose d [] = None"
| "findClose d (c # cs) =
     (if js_startsWith d (c # cs) then Some ([], drop (length d) (c # cs))
      else if isLineTerminator c then None
      else (case findClose d cs of
              None \<Rightarrow> None
            | Some (g, rest) \<Rightarrow> Some (c # g, rest)))"

lemma findClose_shorter: "findClose d s = Some (g, rest) \<Longrightarrow> length rest \<le> length s"
  by (induction s arbitrary: g) (auto split: if_splits option.splits)

function stripPairs :: "jsstring \<Rightarrow> jsstring \<Rightarrow> jsstring" where
  "stripPairs d [] = []"
| "stripPairs d (c # cs) =
     (if d \<noteq> [] \<and> js_startsWith d (c # cs) then
        (case findClose d (drop (length d) (c # cs)) of
           Some (g, rest) \<Rightarrow> g @ stripPairs d rest
         | None \<Rightarrow> c # stripPairs d cs)
      else c # stripPairs d cs)"
  by pat_completeness auto
termination
proof (relation "measure (\<lambda>(d, s). length s)")
  show "wf (measure (\<lambda>(d, s). length s))" by simp
next
  fix d :: jsstring and c cs x2 g rest
  assume d: "d \<noteq> [] \<and> js_startsWith d (c # cs)"
    and f: "findClose d (drop (length d) (c # cs)) = Some x2" and x: "(g, rest) = x2"
  from f x have "length rest \<le> length (drop (length d) (c # cs))"
    by (metis findClose_shorter)
  moreover from d have "length (drop (length d) (c # cs)) < length (c # cs)"
    by (cases d) simp_all
  ultimately show "((d, rest), (d, c # cs)) \<in> measure (\<lambda>(d, s). length s)" by simp
qed simp_all

text \<open>
  \<open>replace(/\n\s*\n\s*\n/g, '\n\n')\<close>. At a line feed, the white space that follows
  is taken as far as it goes, and the pattern matches when that run holds two more line
  feeds; the two greedy \<open>\s*\<close> then make the match end at the last line feed of the
  run.
\<close>

definition blankRun :: "jsstring \<Rightarrow> nat option" where
  "blankRun cs =
     (let w = takeWhile isWhiteSpace cs in
      if 2 \<le> length (filter (\<lambda>x. x = 10) w)
      then Some (length w - length (takeWhile (\<lambda>x. x \<noteq> 10) (rev w)))
      else None)"

function collapseBlankLines :: "jsstring \<Rightarrow> jsstring" where
  "collapseBlankLines [] = []"
| "collapseBlankLines (c # cs) =
     (if c = 10 then
        (case blankRun cs of
           Some k \<Rightarrow> [10, 10] @ collapseBlankLines (drop k cs)
         | None \<Rightarrow> c # collapseBlankLines cs)
      else c # collapseBlankLines cs)"
  by pat_completeness auto
termination
  by (relation "measure length") auto

definition cleanAIResponse :: "jsstring \<Rightarrow> jsstring" where
  "cleanAIResponse response =
     (let cleaned = stripPairs (ascii ''**'') response;
          cleaned = stripPairs (ascii ''*'') cleaned;
          cleaned = stripPairs [96] cleaned;
          cleaned = collapseBlankLines cleaned;
          cleaned = trim cleaned
      in if length cleaned > 500 then take 497 cleaned @ ascii ''...'' else cleaned)"

text \<open>
  What the completion service answers to the \<open>axios.post\<close> of \<open>callGeminiAPI\<close> (lines
  556-619): the call throws (a timeout after 15 s, a response outside 2xx, a network
  error); or it returns a body without \<open>candidates[0]\<close>; or a body whose first candidate
  lacks \<open>content.parts[0].text\<close>, so that reading it throws; or a body with a text. The
  \<open>catch\<close> turns every exception into \<open>null\<close>. The service's answer does not depend on
  anything the model keeps, so it is a parameter and the prompt is not built.
\<close>

datatype apiOutcome = ApiThrows | NoCandidate | MalformedCandidate | CandidateText jsstring

definition callGeminiAPI :: "apiOutcome \<Rightarrow> jsstring option" where
  "callGeminiAPI outcome =
     (case outcome of
        ApiThrows \<Rightarrow> None
      | NoCandidate \<Rightarrow> None
      | MalformedCandidate \<Rightarrow> None
      | CandidateText t \<Rightarrow> Some (cleanAIResponse (trim t)))"

text \<open>\<open>getFallbackReply\<close> (lines 684-696); every category has an entry.\<close>

definition getFallbackReply :: "language \<Rightarrow> jsstring" where
  "getFallbackReply lang =
     (case lang of
        Hinglish \<Rightarrow> ascii ''Sorry yaar, thoda issue ho gaya. Tum bolo kya chahiye? '' @ [55357, 56837]
      | Hindi \<Rightarrow> [2350, 2366, 2347] @ ascii '' '' @ [2325, 2352, 2375, 2306] @ ascii '', ''
          @ [2325, 2369, 2331] @ ascii '' '' @ [2360, 2350, 2360, 2381, 2351, 2366] @ ascii '' ''
          @ [2361, 2379] @ ascii '' '' @ [2327, 2312, 2404] @ ascii '' '' @ [2310, 2346]
          @ ascii '' '' @ [2348, 2340, 2366, 2319, 2306] @ ascii '' '' @ [2325, 2381, 2351, 2366]
          @ ascii '' '' @ [2330, 2366, 2361, 2367, 2319] @ ascii ''? '' @ [55357, 56837]
      | English \<Rightarrow> ascii ''Sorry, I encountered an issue. What can I help you with? ''
          @ [55357, 56837]
      | Urdu \<Rightarrow> [1605, 1593, 1575, 1601] @ ascii '' '' @ [1705, 1585, 1740, 1722, 1548]
          @ ascii '' '' @ [1705, 1670, 1726] @ ascii '' '' @ [1605, 1587, 1574, 1604, 1729]
          @ ascii '' '' @ [1729, 1608] @ ascii '' '' @ [1711, 1740, 1575, 1748] @ ascii '' ''
          @ [1570, 1662] @ ascii '' '' @ [1576, 1578, 1575, 1574, 1740, 1722] @ ascii '' ''
          @ [1705, 1740, 1575] @ ascii '' '' @ [1670, 1575, 1729, 1740, 1746, 1567] @ ascii '' ''
          @ [55357, 56837]
      | Bengali \<Rightarrow> [2470, 2497, 2435, 2454, 2495, 2468] @ ascii '', '' @ [2453, 2495, 2459, 2497]
          @ ascii '' '' @ [2488, 2478, 2488, 2509, 2479, 2494] @ ascii '' ''
          @ [2489, 2479, 2492, 2503, 2459, 2503, 2404] @ ascii '' '' @ [2438, 2474, 2472, 2495]
          @ ascii '' '' @ [2476, 2482, 2497, 2472] @ ascii '' '' @ [2453, 2496] @ ascii '' ''
          @ [2482, 2494, 2455, 2476, 2503] @ ascii ''? '' @ [55357, 56837]
      | Tamil \<Rightarrow> [2990, 2985, 3021, 2985, 3007, 2965, 3021, 2965, 2997, 3009, 2990, 3021]
          @ ascii '', '' @ [2970, 3007, 2994] @ ascii '' ''
          @ [2986, 3007, 2992, 2970, 3021, 2970, 2985, 3016] @ ascii '' ''
          @ [2959, 2993, 3021, 2986, 2975, 3021, 2975, 2980, 3009] @ ascii ''. ''
          @ [2984, 3008, 2969, 3021, 2965, 2995, 3021] @ ascii '' '' @ [2958, 2985, 3021, 2985]
          @ ascii '' '' @ [2997, 3015, 2979, 3021, 2975, 3009, 2990, 3021] @ ascii '' ''
          @ [2958, 2985, 3021, 2993, 3009] @ ascii '' ''
          @ [2970, 3018, 2994, 3021, 2994, 3009, 2969, 3021, 2965, 2995, 3021] @ ascii ''? ''
          @ [55357, 56837]
      | Gujarati \<Rightarrow> [2734, 2750, 2731] @ ascii '' '' @ [2709, 2736, 2742, 2763] @ ascii '', ''
          @ [2725, 2763, 2721, 2752] @ ascii '' '' @ [2744, 2734, 2744, 2765, 2735, 2750]
          @ ascii '' '' @ [2725, 2696] @ ascii ''. '' @ [2724, 2734, 2759] @ ascii '' ''
          @ [2709, 2745, 2763] @ ascii '' '' @ [2742, 2753, 2690] @ ascii '' ''
          @ [2716, 2763, 2696, 2703] @ ascii ''? '' @ [55357, 56837])"

text \<open>
  \<open>generateReply\<close> (lines 424-461); the result \<open>None\<close> is \<open>null\<close>.
  \<open>generateReply_allowed\<close> is the part after the rate-limit check (lines 434-455):
  \<open>if (aiResponse)\<close> is false for \<open>null\<close> and for the empty string, and only the true
  branch touches the history. With a string for \<open>message\<close> no statement of the \<open>try\<close>
  block throws (\<open>callGeminiAPI\<close> catches its own exceptions), so the \<open>catch\<close> of line 457
  is not reached. \<open>now\<close> is the time of the rate-limit check and \<open>later\<close> the time at
  which the turn is stored, after the call has returned.
\<close>

definition generateReply_allowed ::
  "int \<Rightarrow> apiOutcome \<Rightarrow> aiReplyState \<Rightarrow> jsstring \<Rightarrow> jsstring \<Rightarrow> jsstring option \<times> aiReplyState"
where
  "generateReply_allowed later outcome st message fromNumber =
     (let lang = detectLanguage message in
      case callGeminiAPI outcome of
        None \<Rightarrow> (Some (getFallbackReply lang), st)
      | Some aiResponse \<Rightarrow>
          if aiResponse \<noteq> [] then
            (Some aiResponse,
             st\<lparr>conversationHistory :=
                  updateConversationHistory later (conversationHistory st) fromNumber message
                    aiResponse lang\<rparr>)
          else (Some (getFallbackReply lang), st))"

definition generateReply ::
  "int option \<Rightarrow> int \<Rightarrow> int \<Rightarrow> apiOutcome \<Rightarrow> aiReplyState \<Rightarrow> jsstring \<Rightarrow> jsstring
     \<Rightarrow> jsstring option \<times> aiReplyState"
where
  "generateReply envLimit now later outcome st message fromNumber =
     (case checkRateLimit envLimit now (rateLimits st) fromNumber of
        (False, limits) \<Rightarrow> (None, st\<lparr>rateLimits := limits\<rparr>)
      | (True, limits) \<Rightarrow>
          generateReply_allowed later outcome (st\<lparr>rateLimits := limits\<rparr>) message fromNumber)"

section \<open>GeminiAI (geminiAI.js, src/unnamed/part_001)\<close>

text \<open>
  \<open>detectLanguage\<close> (lines 86-106). When the text has neither a Devanagari character
  nor a Latin letter, the source tries three more patterns and returns \<open>hinglish\<close>
  whether one of them matches or not: the last branch.
\<close>

definition gemini_detectLanguage :: "jsstring \<Rightarrow> language" where
  "gemini_detectLanguage text =
     (let hindiWords = list_ex isDevanagari text;
          englishWords = list_ex isLatin text
      in if hindiWords \<and> englishWords then Hinglish
         else if hindiWords then Hindi
         else if englishWords then English
         else Hinglish)"

datatype entryType = User | Bot

record chatEntry =
  entryType :: entryType
  message :: jsstring
  entryTime :: int

record geminiState =
  chatHistory :: "jsstring \<rightharpoonup> chatEntry list"
  lastReplyTime :: "jsstring \<rightharpoonup> int"

definition getChatHistory :: "(jsstring \<rightharpoonup> chatEntry list) \<Rightarrow> jsstring \<Rightarrow> chatEntry list" where
  "getChatHistory hist contactNumber = (case hist contactNumber of Some h \<Rightarrow> h | None \<Rightarrow> [])"

text \<open>\<open>updateChatHistory\<close> (lines 114-137): two \<open>push\<close>es, then \<open>slice(-10)\<close> when the
  length is over 10.\<close>

definition updateChatHistory ::
  "int \<Rightarrow> (jsstring \<rightharpoonup> chatEntry list) \<Rightarrow> jsstring \<Rightarrow> jsstring \<Rightarrow> jsstring
     \<Rightarrow> (jsstring \<rightharpoonup> chatEntry list)"
where
  "updateChatHistory now hist contactNumber userMsg botReply =
     (let history = getChatHistory hist contactNumber
                      @ [\<lparr>entryType = User, message = userMsg, entryTime = now\<rparr>]
                      @ [\<lparr>entryType = Bot, message = botReply, entryTime = now\<rparr>];
          history = (if length history > 10 then drop (length history - 10) history else history)
      in hist(contactNumber \<mapsto> history))"

text \<open>
  \<open>canReply\<close> (lines 140-148). \<open>envMax\<close> is
  \<open>parseInt(process.env.MAX_MESSAGES_PER_MINUTE)\<close>; \<open>!lastReply\<close> holds for a missing
  entry and for the time 0; the division is JavaScript's division of numbers.
\<close>

definition maxMessagesPerMinute :: "int option \<Rightarrow> int" where
  "maxMessagesPerMinute envMax = (case envMax of None \<Rightarrow> 2 | Some n \<Rightarrow> if n = 0 then 2 else n)"

definition canReply :: "int option \<Rightarrow> int \<Rightarrow> (jsstring \<rightharpoonup> int) \<Rightarrow> jsstring \<Rightarrow> bool" where
  "canReply envMax now lastReply contactNumber =
     (case lastReply contactNumber of
        None \<Rightarrow> True
      | Some t \<Rightarrow> if t = 0 then True
                  else real_of_int (now - t) > 60000 / real_of_int (maxMessagesPerMinute envMax))"

text \<open>\<open>getFallbackReply\<close> (lines 151-161): \<open>r\<close> is the value of \<open>Math.random()\<close>, and an
  index outside the array gives \<open>undefined\<close>, here \<open>None\<close>. The product \<open>r * 5\<close> is taken
  over the real numbers; the product of doubles can round up to the next integer (for the
  double nearest 0.6 it is 3), so which of the five replies is picked may differ for such
  an \<open>r\<close>, but not that the index lies in the array.\<close>

definition fallbackReplies :: "jsstring list" where
  "fallbackReplies =
     [ascii ''Sorry yaar, thoda technical issue ho gaya '' @ [55357, 56837] @ ascii '' Kya keh rahe the?'',
      ascii ''Arre yaar, samjha nahi. Thoda aur detail mein batao na '' @ [55358, 56596],
      ascii ''Oops! Kuch problem hai mere system mein. Dobara try karo '' @ [55357, 56842],
      ascii ''Sorry bro, connection issue hai. Thoda wait karo '' @ [55357, 56911],
      ascii ''Arre, maine suna nahi properly. Phir se bolo na '' @ [55357, 56386]]"

definition gemini_getFallbackReply :: "real \<Rightarrow> jsstring option" where
  "gemini_getFallbackReply r =
     (let i = \<lfloor>r * real (length fallbackReplies)\<rfloor> in
      if 0 \<le> i \<and> nat i < length fallbackReplies then Some (fallbackReplies ! nat i) else None)"

text \<open>
  \<open>generateReply\<close> (lines 21-56). The model call of line 39, and reading its text on
  line 41, either throw or give a text; an exception is caught on line 52, after which
  nothing of the \<open>try\<close> block has run beyond the call. \<open>now\<close> is the time of the check,
  \<open>later\<close> the time after the call.
\<close>

datatype modelOutcome = ModelThrows | ModelText jsstring

definition gemini_generateReply ::
  "int option \<Rightarrow> int \<Rightarrow> int \<Rightarrow> real \<Rightarrow> modelOutcome \<Rightarrow> geminiState \<Rightarrow> jsstring \<Rightarrow> jsstring
     \<Rightarrow> jsstring option \<times> geminiState"
where
  "gemini_generateReply envMax now later r outcome st messageText contactNumber =
     (if \<not> canReply envMax now (lastReplyTime st) contactNumber then (None, st)
      else (case outcome of
              ModelThrows \<Rightarrow> (gemini_getFallbackReply r, st)
            | ModelText t \<Rightarrow>
                (let reply = trim t in
                 (Some reply,
                  \<lparr>chatHistory = updateChatHistory later (chatHistory st) contactNumber messageText reply,
                   lastReplyTime = (lastReplyTime st)(contactNumber \<mapsto> later)\<rparr>))))"

text \<open>\<open>clearChatHistory\<close> (lines 164-167) and \<open>cleanup\<close> (lines 185-198).\<close>

definition clearChatHistory :: "geminiState \<Rightarrow> jsstring \<Rightarrow> geminiState" where
  "clearChatHistory st contactNumber = st\<lparr>chatHistory := (chatHistory st)(contactNumber := None)\<rparr>"

definition cleanup :: "int \<Rightarrow> geminiState \<Rightarrow> geminiState" where
  "cleanup now st =
     st\<lparr>chatHistory := (\<lambda>k. case chatHistory st k of
          None \<Rightarrow> None
        | Some h \<Rightarrow> if h = [] then Some h
                    else if now - entryTime (last h) > 24 * 60 * 60 * 1000 then None
                    else Some h)\<rparr>"

section \<open>The operations that change a history\<close>

text \<open>
  Every operation of \<open>AIReply\<close> that writes \<open>conversationHistory\<close>, and every operation
  of \<open>GeminiAI\<close> that writes \<open>chatHistory\<close>, as a command; a run applies commands in
  order.
\<close>

datatype historyOp =
    UpdateHistory int jsstring jsstring jsstring language
  | ClearHistory jsstring
  | CleanupOld int
  | Shutdown

fun applyHistoryOp :: "aiReplyState \<Rightarrow> historyOp \<Rightarrow> aiReplyState" where
  "applyHistoryOp st (UpdateHistory now c u a l) =
     st\<lparr>conversationHistory := updateConversationHistory now (conversationHistory st) c u a l\<rparr>"
| "applyHistoryOp st (ClearHistory c) = clearHistory st c"
| "applyHistoryOp st (CleanupOld now) = cleanupOldConversations now st"
| "applyHistoryOp st Shutdown = shutdown st"

datatype chatOp =
    UpdateChat int jsstring jsstring jsstring
  | ClearChat jsstring
  | CleanupChat int

fun applyChatOp :: "geminiState \<Rightarrow> chatOp \<Rightarrow> geminiState" where
  "applyChatOp st (UpdateChat now c u b) =
     st\<lparr>chatHistory := updateChatHistory now (chatHistory st) c u b\<rparr>"
| "applyChatOp st (ClearChat c) = clearChatHistory st c"
| "applyChatOp st (CleanupChat now) = cleanup now st"

definition historyBounded :: "(jsstring \<rightharpoonup> 'a list) \<Rightarrow> bool" where
  "historyBounded hist = (\<forall>k h. hist k = Some h \<longrightarrow> length h \<le> 10)"

definition emptyAIReply :: aiReplyState where
  "emptyAIReply = \<lparr>conversationHistory = Map.empty, rateLimits = Map.empty\<rparr>"

definition emptyGemini :: geminiState where
  "emptyGemini = \<lparr>chatHistory = Map.empty, lastReplyTime = Map.empty\<rparr>"

text \<open>Concrete inputs: a stored turn, and three texts that mix scripts (Latin with
  Arabic script; Latin and Devanagari on two lines; Latin and Devanagari on one line).\<close>

definition sampleTurn :: "int \<Rightarrow> conversationTurn" where
  "sampleTurn n =
     \<lparr>userMessage = ascii ''hi'', aiReply = ascii ''hello'', language = English, timestamp = n\<rparr>"

definition mixedArabic :: jsstring where
  "mixedArabic = ascii ''hello '' @ [1587, 1604, 1575, 1605]"

definition mixedTwoLines :: jsstring where
  "mixedTwoLines = ascii ''ok'' @ [10, 2336, 2368, 2325]"

definition mixedDevanagari :: jsstring where
  "mixedDevanagari = ascii ''hello '' @ [2344, 2350, 2360, 2381, 2340, 2375]"

text \<open>Concrete exchanges for \<open>GeminiAI\<close>: the two entries that the exchange stored at
  time \<open>n\<close> leaves, and the storing of that exchange for one contact.\<close>

definition userEntry :: "int \<Rightarrow> chatEntry" where
  "userEntry n = \<lparr>entryType = User, message = ascii ''hi'', entryTime = n\<rparr>"

definition botEntry :: "int \<Rightarrow> chatEntry" where
  "botEntry n = \<lparr>entryType = Bot, message = ascii ''hello'', entryTime = n\<rparr>"

definition recordExchange :: "(jsstring \<rightharpoonup> chatEntry list) \<Rightarrow> int \<Rightarrow> (jsstring \<rightharpoonup> chatEntry list)" where
  "recordExchange hist n = updateChatHistory n hist (ascii ''c'') (ascii ''hi'') (ascii ''hello'')"

text \<open>When the completion call counts as failed for \<open>generateReply\<close>: it threw, its
  body had no usable candidate, or the cleaned text is empty.\<close>

definition completionFails :: "apiOutcome \<Rightarrow> bool" where
  "completionFails outcome =
     (case outcome of
        ApiThrows \<Rightarrow> True
      | NoCandidate \<Rightarrow> True
      | MalformedCandidate \<Rightarrow> True
      | CandidateText t \<Rightarrow> cleanAIResponse (trim t) = [])"

section \<open>SessionManager (sessionManager.js, the first file of src/unnamed/part_000)\<close>

text \<open>
  \<open>server.js\<close> builds the session manager with a \<open>GeminiAI\<close>. The manager's state:
  \<open>client\<close> is \<open>null\<close> (\<open>None\<close>) or the adapter object; \<open>activeChats\<close> is a \<open>Set\<close>, kept
  in insertion order; \<open>pendingRestarts\<close> holds the due times of the \<open>setTimeout\<close>
  callbacks that the \<open>disconnected\<close> handler has registered and that have not run yet.
\<close>

record sessionManager =
  client :: "unit option"
  isReady :: bool
  qrRetries :: nat
  messageCount :: nat
  activeChats :: "jsstring list"
  pendingRestarts :: "int list"

definition maxQrRetries :: nat where
  "maxQrRetries = 3"

text \<open>What the manager does to the outside: events sent to the browser clients with
  \<open>io.emit\<close>, calls on the adapter, and waits.\<close>

datatype action =
    Emit jsstring
  | GetContact
  | GetChat
  | TypingOn
  | Wait real
  | TypingOff
  | Reply jsstring
  | DestroyClient
  | NewClient
  | InitializeClient

text \<open>Runs actions in order until one throws; the result says whether one threw and
  lists the actions attempted.\<close>

fun attempt :: "(action \<Rightarrow> bool) \<Rightarrow> action list \<Rightarrow> bool \<times> action list" where
  "attempt throws [] = (False, [])"
| "attempt throws (a # as) =
     (if throws a then (True, [a])
      else (case attempt throws as of (t, done) \<Rightarrow> (t, a # done)))"

subsection \<open>The typing delay\<close>

text \<open>
  Lines 244-248 of \<open>sendReplyWithTyping\<close>. \<open>envMin\<close> and \<open>envMax\<close> are
  \<open>parseInt(process.env.TYPING_DELAY_MIN)\<close> and \<open>..._MAX\<close>; \<open>r\<close> is the value of
  \<open>Math.random()\<close>, a number with \<open>0 \<le> r < 1\<close>, taken as a real number; the delay is in
  milliseconds.
\<close>

definition typingDelayMin :: "int option \<Rightarrow> int" where
  "typingDelayMin envMin = (case envMin of None \<Rightarrow> 1000 | Some n \<Rightarrow> if n = 0 then 1000 else n)"

definition typingDelayMax :: "int option \<Rightarrow> int" where
  "typingDelayMax envMax = (case envMax of None \<Rightarrow> 3000 | Some n \<Rightarrow> if n = 0 then 3000 else n)"

definition baseDelay :: "int option \<Rightarrow> int option \<Rightarrow> real \<Rightarrow> real" where
  "baseDelay envMin envMax r =
     real_of_int (typingDelayMin envMin)
       + r * (real_of_int (typingDelayMax envMax) - real_of_int (typingDelayMin envMin))"

definition charDelay :: "jsstring \<Rightarrow> real" where
  "charDelay reply = real (length reply * 30)"

definition totalDelay :: "int option \<Rightarrow> int option \<Rightarrow> real \<Rightarrow> jsstring \<Rightarrow> real" where
  "totalDelay envMin envMax r reply =
     min (baseDelay envMin envMax r + charDelay reply) (real_of_int (typingDelayMax envMax))"

subsection \<open>The message pipeline\<close>

text \<open>
  An inbound message and the contact that \<open>message.getContact()\<close> gives for it. A
  property of the contact may be \<open>undefined\<close>; \<open>a || b\<close> takes \<open>b\<close> when \<open>a\<close> is
  \<open>undefined\<close> or the empty string.
\<close>

record inbound =
  msgFrom :: jsstring
  fromMe :: bool
  msgTimestamp :: int
  body :: jsstring

record contact =
  name :: "jsstring option"
  pushname :: "jsstring option"
  number :: jsstring

definition orElse :: "jsstring option \<Rightarrow> jsstring option \<Rightarrow> jsstring option" where
  "orElse a b = (case a of Some s \<Rightarrow> if s \<noteq> [] then a else b | None \<Rightarrow> b)"

text \<open>
  What one run of \<open>handleIncomingMessage\<close> takes from outside the manager: the clock at
  its start and after the model call, the contact lookup (\<open>None\<close> when it throws), the
  typing configuration, the two random numbers, the configuration and the answer of the
  model call, and which adapter actions throw.
\<close>

record pipelineEnv =
  envNow :: int
  envLater :: int
  envContact :: "contact option"
  envTypingMin :: "int option"
  envTypingMax :: "int option"
  envRandomTyping :: real
  envRandomFallback :: real
  envMaxMessages :: "int option"
  envModel :: modelOutcome
  envThrows :: "action \<Rightarrow> bool"

definition apology :: jsstring where
  "apology = ascii ''Sorry, kuch technical problem hai. Thoda baad try karo '' @ [55357, 56837]"

text \<open>\<open>sendReplyWithTyping\<close> (lines 236-265): the \<open>catch\<close> logs and rethrows.\<close>

definition sendReplyWithTyping :: "pipelineEnv \<Rightarrow> jsstring \<Rightarrow> bool \<times> action list" where
  "sendReplyWithTyping env reply =
     attempt (envThrows env)
       [GetChat, TypingOn,
        Wait (totalDelay (envTypingMin env) (envTypingMax env) (envRandomTyping env) reply),
        TypingOff, Reply reply]"

text \<open>
  The \<open>try\<close> block of \<open>handleIncomingMessage\<close> from line 187 on: the result says
  whether it threw. \<open>activeChats.add\<close> appends a number that is not in the set yet.
  \<open>if (aiReply)\<close> is false for \<open>null\<close>, \<open>undefined\<close> and the empty string.
\<close>

definition answerMessage ::
  "pipelineEnv \<Rightarrow> sessionManager \<times> geminiState \<Rightarrow> inbound
     \<Rightarrow> bool \<times> (sessionManager \<times> geminiState) \<times> action list"
where
  "answerMessage env st msg =
     (case st of (sm, ai) \<Rightarrow>
      if envThrows env GetContact then (True, (sm, ai), [GetContact])
      else (case envContact env of
        None \<Rightarrow> (True, (sm, ai), [GetContact])
      | Some c \<Rightarrow>
          (let contactName = orElse (orElse (name c) (pushname c)) (Some (number c));
               messageText = trim (body msg)
           in if messageText = [] then (False, (sm, ai), [GetContact])
              else
                (let sm1 = sm\<lparr>activeChats :=
                             (if number c \<in> set (activeChats sm) then activeChats sm
                              else activeChats sm @ [number c])\<rparr>;
                     (aiReply, ai1) =
                       gemini_generateReply (envMaxMessages env) (envNow env) (envLater env)
                         (envRandomFallback env) (envModel env) ai messageText (number c)
                 in case aiReply of
                      None \<Rightarrow> (False, (sm1, ai1), [GetContact])
                    | Some reply \<Rightarrow>
                        if reply = [] then (False, (sm1, ai1), [GetContact])
                        else (case sendReplyWithTyping env reply of
                                (True, done) \<Rightarrow> (True, (sm1, ai1), GetContact # done)
                              | (False, done) \<Rightarrow>
                                  (False, (sm1\<lparr>messageCount := messageCount sm1 + 1\<rparr>, ai1),
                                   GetContact # done @ [Emit (ascii ''message_reply'')]))))))"

text \<open>
  \<open>handleIncomingMessage\<close> (lines 166-233): the three filters that return before
  anything else is done, then the block above; when it throws, the \<open>catch\<close> tries to send
  the apology and swallows a failure of that.
\<close>

definition handleIncomingMessage ::
  "pipelineEnv \<Rightarrow> sessionManager \<times> geminiState \<Rightarrow> inbound
     \<Rightarrow> (sessionManager \<times> geminiState) \<times> action list"
where
  "handleIncomingMessage env st msg =
     (if \<not> isReady (fst st) \<or> fromMe msg then (st, [])
      else if js_includes (ascii ''@g.us'') (msgFrom msg) then (st, [])
      else if msgTimestamp msg * 1000 < envNow env - 5 * 60 * 1000 then (st, [])
      else (case answerMessage env st msg of
              (False, st', done) \<Rightarrow> (st', done)
            | (True, st', done) \<Rightarrow> (st', done @ [Reply apology])))"

subsection \<open>The connection lifecycle\<close>

text \<open>
  The handlers of \<open>setupEventHandlers\<close> (lines 72-163) and the commands, each as a
  function from the state to the new state and the actions done.

  \<open>initializeClient\<close> (lines 32-69) stores the new client before \<open>initialize()\<close> runs;
  when that throws, an error is emitted and the exception goes to the caller.
\<close>

definition initializeClient :: "bool \<Rightarrow> sessionManager \<Rightarrow> bool \<times> sessionManager \<times> action list" where
  "initializeClient initThrows sm =
     (if initThrows
      then (True, sm\<lparr>client := Some ()\<rparr>, [NewClient, InitializeClient, Emit (ascii ''error'')])
      else (False, sm\<lparr>client := Some ()\<rparr>, [NewClient, InitializeClient]))"

text \<open>\<open>restartClient\<close> (lines 314-334): an exception of \<open>destroy()\<close> or of
  \<open>initializeClient\<close> ends the \<open>try\<close> block and is reported with an \<open>error\<close> event.\<close>

definition restartClient :: "bool \<Rightarrow> bool \<Rightarrow> sessionManager \<Rightarrow> sessionManager \<times> action list" where
  "restartClient destroyThrows initThrows sm =
     (if client sm \<noteq> None \<and> destroyThrows then (sm, [DestroyClient, Emit (ascii ''error'')])
      else
        (let destroyed = (if client sm \<noteq> None then [DestroyClient] else []);
             sm1 = sm\<lparr>isReady := False, qrRetries := 0\<rparr>
         in case initializeClient initThrows sm1 of
              (True, sm2, done) \<Rightarrow> (sm2, destroyed @ [Wait 3000] @ done @ [Emit (ascii ''error'')])
            | (False, sm2, done) \<Rightarrow> (sm2, destroyed @ [Wait 3000] @ done)))"

text \<open>\<open>stopClient\<close> (lines 337-353): when \<open>destroy()\<close> throws, the rest of the \<open>try\<close>
  block is skipped and the error is only logged.\<close>

definition stopClient :: "bool \<Rightarrow> sessionManager \<Rightarrow> sessionManager \<times> action list" where
  "stopClient destroyThrows sm =
     (case client sm of
        None \<Rightarrow> (sm, [Emit (ascii ''disconnected'')])
      | Some c \<Rightarrow>
          if destroyThrows then (sm\<lparr>isReady := False\<rparr>, [DestroyClient])
          else (sm\<lparr>isReady := False, client := None\<rparr>,
                [DestroyClient, Emit (ascii ''disconnected'')]))"

text \<open>The \<open>qr\<close> handler (lines 74-101): when rendering the code throws, the counter is
  not touched. The restart it starts is not awaited; it is run here at once.\<close>

definition onQr :: "bool \<Rightarrow> bool \<Rightarrow> bool \<Rightarrow> sessionManager \<Rightarrow> sessionManager \<times> action list" where
  "onQr renderThrows destroyThrows initThrows sm =
     (if renderThrows then (sm, [Emit (ascii ''error'')])
      else
        (let sm1 = sm\<lparr>qrRetries := qrRetries sm + 1\<rparr> in
         if qrRetries sm1 > maxQrRetries
         then (case restartClient destroyThrows initThrows sm1 of
                 (sm2, done) \<Rightarrow> (sm2, Emit (ascii ''qr'') # done))
         else (sm1, [Emit (ascii ''qr'')])))"

definition onAuthenticated :: "sessionManager \<Rightarrow> sessionManager \<times> action list" where
  "onAuthenticated sm = (sm\<lparr>qrRetries := 0\<rparr>, [Emit (ascii ''authenticated'')])"

definition onReady :: "sessionManager \<Rightarrow> sessionManager \<times> action list" where
  "onReady sm = (sm\<lparr>isReady := True\<rparr>, [Emit (ascii ''ready'')])"

text \<open>The \<open>disconnected\<close> handler (lines 140-150): \<open>setTimeout(..., 5000)\<close> registers
  the restart, whatever the state is.\<close>

definition onDisconnected :: "int \<Rightarrow> sessionManager \<Rightarrow> sessionManager \<times> action list" where
  "onDisconnected now sm =
     (sm\<lparr>isReady := False, pendingRestarts := pendingRestarts sm @ [now + 5000]\<rparr>,
      [Emit (ascii ''disconnected'')])"

definition onAuthFailure :: "sessionManager \<Rightarrow> sessionManager \<times> action list" where
  "onAuthFailure sm = (sm, [Emit (ascii ''error'')])"

text \<open>A timer callback that is due runs \<open>restartClient\<close>; the earliest registered one
  that is due is taken.\<close>

definition onTimer :: "int \<Rightarrow> bool \<Rightarrow> bool \<Rightarrow> sessionManager \<Rightarrow> sessionManager \<times> action list" where
  "onTimer now destroyThrows initThrows sm =
     (case filter (\<lambda>t. t \<le> now) (pendingRestarts sm) of
        [] \<Rightarrow> (sm, [])
      | t # ts \<Rightarrow>
          restartClient destroyThrows initThrows
            (sm\<lparr>pendingRestarts := remove1 t (pendingRestarts sm)\<rparr>))"

text \<open>The periodic statistics of \<open>startStatsUpdater\<close> (lines 298-311).\<close>

definition onStatsTick :: "sessionManager \<Rightarrow> sessionManager \<times> action list" where
  "onStatsTick sm =
     (if isReady sm
      then ((if length (activeChats sm) > 50 then sm\<lparr>activeChats := []\<rparr> else sm),
            [Emit (ascii ''message_count''), Emit (ascii ''active_chats'')])
      else (sm, []))"

text \<open>What can happen to a session, with the time at which it happens; \<open>run\<close> applies a
  sequence of such events and keeps the state.\<close>

datatype event =
    Qr bool bool bool
  | Authenticated
  | Ready
  | Disconnected
  | AuthFailure
  | Stop bool
  | Restart bool bool
  | Timer bool bool
  | StatsTick

fun step :: "sessionManager \<Rightarrow> int \<times> event \<Rightarrow> sessionManager" where
  "step sm (now, Qr renderThrows destroyThrows initThrows) =
     fst (onQr renderThrows destroyThrows initThrows sm)"
| "step sm (now, Authenticated) = fst (onAuthenticated sm)"
| "step sm (now, Ready) = fst (onReady sm)"
| "step sm (now, Disconnected) = fst (onDisconnected now sm)"
| "step sm (now, AuthFailure) = fst (onAuthFailure sm)"
| "step sm (now, Stop destroyThrows) = fst (stopClient destroyThrows sm)"
| "step sm (now, Restart destroyThrows initThrows) = fst (restartClient destroyThrows initThrows sm)"
| "step sm (now, Timer destroyThrows initThrows) = fst (onTimer now destroyThrows initThrows sm)"
| "step sm (now, StatsTick) = fst (onStatsTick sm)"

definition run :: "sessionManager \<Rightarrow> (int \<times> event) list \<Rightarrow> sessionManager" where
  "run sm evs = foldl step sm evs"

text \<open>A session that is connected and ready, with nothing pending.\<close>

definition readySession :: sessionManager where
  "readySession =
     \<lparr>client = Some (), isReady = True, qrRetries = 0, messageCount = 0, activeChats = [],
      pendingRestarts = []\<rparr>"

text \<open>Concrete inputs for the pipeline: a message from a group and one from a
  contact, and an environment in which nothing throws and the model answers.\<close>

definition groupMessage :: inbound where
  "groupMessage =
     \<lparr>msgFrom = ascii ''120363041234567890@g.us'', fromMe = False, msgTimestamp = 1700000000,
      body = ascii ''hello''\<rparr>"

definition directMessage :: inbound where
  "directMessage =
     \<lparr>msgFrom = ascii ''919876543210@c.us'', fromMe = False, msgTimestamp = 1700000000,
      body = ascii ''hello''\<rparr>"

definition noThrow :: "action \<Rightarrow> bool" where
  "noThrow a = False"

definition sampleEnv :: pipelineEnv where
  "sampleEnv =
     \<lparr>envNow = 1700000001000, envLater = 1700000002000,
      envContact = Some \<lparr>name = Some (ascii ''Asha''), pushname = None, number = ascii ''919876543210''\<rparr>,
      envTypingMin = None, envTypingMax = None, envRandomTyping = 0, envRandomFallback = 0,
      envMaxMessages = None, envModel = ModelText (ascii ''hi there''), envThrows = noThrow\<rparr>"

section \<open>Properties\<close>

subsection \<open>WhatsAppHandler\<close>

lemma js_includes_set: "js_includes p s \<Longrightarrow> p \<noteq> [] \<Longrightarrow> set p \<subseteq> set s"
proof (induction s)
  case Nil
  then show ?case by simp
next
  case (Cons c cs)
  show ?case
  proof (cases "js_startsWith p (c # cs)")
    case True
    then have "p = take (length p) (c # cs)" by (simp add: js_startsWith_def)
    then have "set p \<subseteq> set (c # cs)" by (metis set_take_subset)
    then show ?thesis .
  next
    case False
    with Cons.prems have "js_includes p cs" by simp
    with Cons.IH Cons.prems have "set p \<subseteq> set cs" by simp
    then show ?thesis by auto
  qed
qed

lemma digits_exclude_suffix: "\<not> js_includes (ascii ''@c.us'') (filter isDigit s)"
proof
  assume "js_includes (ascii ''@c.us'') (filter isDigit s)"
  then have "set (ascii ''@c.us'') \<subseteq> set (filter isDigit s)"
    by (rule js_includes_set) (simp add: ascii_def)
  then have "isDigit 64" by (auto simp: ascii_def)
  then show False by (simp add: isDigit_def)
qed

lemma prefixed_digits_exclude_suffix:
  "\<not> js_includes (ascii ''@c.us'') (ascii ''91'' @ filter isDigit s)"
proof
  assume "js_includes (ascii ''@c.us'') (ascii ''91'' @ filter isDigit s)"
  then have "set (ascii ''@c.us'') \<subseteq> set (ascii ''91'' @ filter isDigit s)"
    by (rule js_includes_set) (simp add: ascii_def)
  then have "isDigit 64" by (auto simp: ascii_def)
  then show False by (simp add: isDigit_def)
qed

lemma formatPhoneNumber_eq:
  "formatPhoneNumber num =
     (if length (filter isDigit num) = 10 \<and> \<not> js_startsWith (ascii ''91'') (filter isDigit num)
      then ascii ''91'' @ filter isDigit num else filter isDigit num) @ ascii ''@c.us''"
  by (simp add: formatPhoneNumber_def Let_def digits_exclude_suffix prefixed_digits_exclude_suffix)

lemma isDeliveryTarget_append:
  "list_all isDigit ds \<Longrightarrow> isDeliveryTarget (ds @ ascii ''@c.us'')"
  by (simp add: isDeliveryTarget_def ascii_def)

lemma isDeliveryTarget_formatPhoneNumber: "isDeliveryTarget (formatPhoneNumber num)"
proof -
  have d: "list_all isDigit (filter isDigit num)" by (simp add: list_all_iff)
  have p: "list_all isDigit (ascii ''91'' @ filter isDigit num)"
    by (simp add: list_all_iff ascii_def isDigit_def)
  show ?thesis
    unfolding formatPhoneNumber_eq using d p by (simp add: isDeliveryTarget_append del: list_all_append)
qed

lemma perform_subset: "set (snd (perform adapter cs)) \<subseteq> set cs"
  by (induction cs) (auto split: option.splits prod.splits)

text \<open>
  Claim C10. For every input string, \<open>formatPhoneNumber\<close> strips the non-digits, prepends
  \<open>91\<close> exactly when ten digits remain that do not start with \<open>91\<close>, and always appends
  \<open>@c.us\<close> (the digits never contain it, so the last conditional always fires). Hence
  the result is a digit string followed by \<open>@c.us\<close>, and every target that
  \<open>sendMessage\<close> hands to the adapter is that result.
\<close>

theorem formatPhoneNumber_delivery_target:
  "formatPhoneNumber num =
     (if length (filter isDigit num) = 10 \<and> \<not> js_startsWith (ascii ''91'') (filter isDigit num)
      then ascii ''91'' @ filter isDigit num else filter isDigit num) @ ascii ''@c.us''
   \<and> isDeliveryTarget (formatPhoneNumber num)
   \<and> (\<forall>call \<in> set (snd (sendMessage typingSimulation adapter h sid to msg)).
         \<forall>t. target call = Some t \<longrightarrow> t = formatPhoneNumber to \<and> isDeliveryTarget t)"
proof (intro conjI)
  show "formatPhoneNumber num =
     (if length (filter isDigit num) = 10 \<and> \<not> js_startsWith (ascii ''91'') (filter isDigit num)
      then ascii ''91'' @ filter isDigit num else filter isDigit num) @ ascii ''@c.us''"
    by (rule formatPhoneNumber_eq)
  show "isDeliveryTarget (formatPhoneNumber num)"
    by (rule isDeliveryTarget_formatPhoneNumber)
  show "\<forall>call \<in> set (snd (sendMessage typingSimulation adapter h sid to msg)).
         \<forall>t. target call = Some t \<longrightarrow> t = formatPhoneNumber to \<and> isDeliveryTarget t"
  proof (intro ballI allI impI)
    fix call t
    assume c: "call \<in> set (snd (sendMessage typingSimulation adapter h sid to msg))"
      and t: "target call = Some t"
    show "t = formatPhoneNumber to \<and> isDeliveryTarget t"
    proof (cases "map_of (clients h) sid")
      case None
      with c show ?thesis by (simp add: sendMessage_def)
    next
      case (Some cl)
      with c have "call \<in> set ((if typingSimulation
               then [GetChatById (formatPhoneNumber to), SendStateTyping (formatPhoneNumber to),
                     Sleep (min (length msg * 50) 3000)]
               else [])
              @ [SendMessage (formatPhoneNumber to) msg])"
        using perform_subset [of adapter "(if typingSimulation
               then [GetChatById (formatPhoneNumber to), SendStateTyping (formatPhoneNumber to),
                     Sleep (min (length msg * 50) 3000)]
               else [])
              @ [SendMessage (formatPhoneNumber to) msg]"]
        by (simp add: sendMessage_def Let_def subset_iff)
      with t have "t = formatPhoneNumber to" by (auto split: if_splits)
      then show ?thesis by (simp add: isDeliveryTarget_formatPhoneNumber)
    qed
  qed
qed

text \<open>The ten-digit num \<open>98765 43210\<close> is sent to \<open>919876543210@c.us\<close>.\<close>

theorem formatPhoneNumber_delivery_target_witness:
  "formatPhoneNumber (ascii ''98765 43210'') = ascii ''919876543210@c.us''
   \<and> SendMessage (ascii ''919876543210@c.us'') (ascii ''hi'')
       \<in> set (snd (sendMessage False adapterOk oneClient (ascii ''s1'') (ascii ''98765 43210'') (ascii ''hi'')))
   \<and> target (SendMessage (ascii ''919876543210@c.us'') (ascii ''hi'')) = Some (ascii ''919876543210@c.us'')
   \<and> isDeliveryTarget (ascii ''919876543210@c.us'')"
  using formatPhoneNumber_delivery_target [of "ascii ''98765 43210''" False adapterOk oneClient
      "ascii ''s1''" "ascii ''98765 43210''" "ascii ''hi''"]
  by (simp add: ascii_def isDigit_def js_startsWith_def sendMessage_def oneClient_def adapterOk_def
      isDeliveryTarget_def)

lemma length_remdups_snoc: "k \<notin> set xs \<Longrightarrow> length (remdups (xs @ [k])) = Suc (length (remdups xs))"
  by (induction xs) auto

lemma map_size_update_new:
  "map_of m k = None \<Longrightarrow> map_size (AList.update k v m) = Suc (map_size m)"
proof -
  assume "map_of m k = None"
  then have k: "k \<notin> set (map fst m)" by (simp add: map_of_eq_None_iff)
  then have "map fst (AList.update k v m) = map fst m @ [k]"
    by (simp add: update_keys image_iff)
  then show ?thesis using k by (simp add: map_size_def length_remdups_snoc)
qed

lemma createClient_again:
  "createClient newClient mx (snd (createClient newClient mx h sid)) sid
     = createClient newClient mx h sid"
  by (auto simp: createClient_def update_conv' split: option.splits sum.splits)

text \<open>
  Claim C5. \<open>createClient\<close>: a session id already in the registry gets its existing
  client back and the handler is unchanged; an id not in the registry, with the registry
  at the maximum, fails with the capacity error and the handler is unchanged; otherwise
  the client the constructor builds is registered under the id (the other entries are
  kept, the size grows by one) and returned. Calling it again with the same id returns
  the same result and changes nothing more.
\<close>

theorem createClient_idempotent_bounded:
  "(\<forall>c. map_of (clients h) sid = Some c \<longrightarrow> createClient newClient mx h sid = (Inr c, h))
   \<and> (map_of (clients h) sid = None \<and> mx \<le> int (map_size (clients h))
        \<longrightarrow> createClient newClient mx h sid = (Inl (MaxSessions mx), h))
   \<and> (\<forall>c. map_of (clients h) sid = None \<and> int (map_size (clients h)) < mx \<and> newClient sid = Inr c
        \<longrightarrow> createClient newClient mx h sid = (Inr c, h\<lparr>clients := AList.update sid c (clients h)\<rparr>)
            \<and> map_of (clients (snd (createClient newClient mx h sid))) = (map_of (clients h))(sid \<mapsto> c)
            \<and> map_size (clients (snd (createClient newClient mx h sid))) = Suc (map_size (clients h)))
   \<and> createClient newClient mx (snd (createClient newClient mx h sid)) sid
        = createClient newClient mx h sid"
proof (intro conjI allI impI)
  fix c assume "map_of (clients h) sid = Some c"
  then show "createClient newClient mx h sid = (Inr c, h)" by (simp add: createClient_def)
next
  assume "map_of (clients h) sid = None \<and> mx \<le> int (map_size (clients h))"
  then show "createClient newClient mx h sid = (Inl (MaxSessions mx), h)"
    by (simp add: createClient_def)
next
  fix c
  assume a: "map_of (clients h) sid = None \<and> int (map_size (clients h)) < mx \<and> newClient sid = Inr c"
  then show r: "createClient newClient mx h sid = (Inr c, h\<lparr>clients := AList.update sid c (clients h)\<rparr>)"
    by (simp add: createClient_def)
  show "map_of (clients (snd (createClient newClient mx h sid))) = (map_of (clients h))(sid \<mapsto> c)"
    by (simp add: r update_conv')
  show "map_size (clients (snd (createClient newClient mx h sid))) = Suc (map_size (clients h))"
    using a by (simp add: r map_size_update_new)
next
  show "createClient newClient mx (snd (createClient newClient mx h sid)) sid
        = createClient newClient mx h sid"
    by (rule createClient_again)
qed

text \<open>With a maximum of one session: \<open>s1\<close> is created, created again (the same
  client, the same registry), and \<open>s2\<close> is refused.\<close>

theorem createClient_idempotent_bounded_witness:
  "createClient newClientOk 1 emptyHandler (ascii ''s1'')
     = (Inr \<lparr>clientId = ascii ''s1''\<rparr>, emptyHandler\<lparr>clients := [(ascii ''s1'', \<lparr>clientId = ascii ''s1''\<rparr>)]\<rparr>)
   \<and> createClient newClientOk 1 (emptyHandler\<lparr>clients := [(ascii ''s1'', \<lparr>clientId = ascii ''s1''\<rparr>)]\<rparr>) (ascii ''s1'')
     = (Inr \<lparr>clientId = ascii ''s1''\<rparr>, emptyHandler\<lparr>clients := [(ascii ''s1'', \<lparr>clientId = ascii ''s1''\<rparr>)]\<rparr>)
   \<and> createClient newClientOk 1 (emptyHandler\<lparr>clients := [(ascii ''s1'', \<lparr>clientId = ascii ''s1''\<rparr>)]\<rparr>) (ascii ''s2'')
     = (Inl (MaxSessions 1), emptyHandler\<lparr>clients := [(ascii ''s1'', \<lparr>clientId = ascii ''s1''\<rparr>)]\<rparr>)"
  using createClient_idempotent_bounded [of emptyHandler "ascii ''s1''" newClientOk 1]
    createClient_idempotent_bounded [of "emptyHandler\<lparr>clients := [(ascii ''s1'', \<lparr>clientId = ascii ''s1''\<rparr>)]\<rparr>" "ascii ''s2''" newClientOk 1]
  by (simp add: emptyHandler_def newClientOk_def map_size_def ascii_def createClient_def)

lemma destroySession_cases:
  "destroySession destroy rmFails h sid =
     (case map_of (clients h) sid of
        None \<Rightarrow> (Inr False, h)
      | Some c \<Rightarrow> (case destroy c of
           None \<Rightarrow> (Inr True, cleanupSession rmFails (h\<lparr>clients := AList.delete sid (clients h)\<rparr>) sid)
         | Some e \<Rightarrow> (Inr False, h\<lparr>clients := AList.delete sid (clients h)\<rparr>)))"
  by (simp add: destroySession_def destroySession_try_def split: option.splits)

lemma clients_cleanupSession: "clients (cleanupSession rmFails h sid) = clients h"
  by (simp add: cleanupSession_def)

text \<open>
  Claim C6, as amended. \<open>destroySession\<close> never raises (its result is always a
  boolean), the session id is absent from the registry afterwards, also when the
  adapter's \<open>destroy\<close> throws; it returns \<open>true\<close> exactly when the session was
  registered and \<open>destroy\<close> did not throw. A second call right after the first changes
  nothing and returns \<open>false\<close>: the session is not found.
\<close>

theorem destroySession_total_absent:
  "(\<exists>b. fst (destroySession destroy rmFails h sid) = Inr b)
   \<and> map_of (clients (snd (destroySession destroy rmFails h sid))) sid = None
   \<and> (fst (destroySession destroy rmFails h sid) = Inr True)
       = (\<exists>c. map_of (clients h) sid = Some c \<and> destroy c = None)
   \<and> destroySession destroy rmFails (snd (destroySession destroy rmFails h sid)) sid
       = (Inr False, snd (destroySession destroy rmFails h sid))"
proof -
  have absent: "map_of (clients (snd (destroySession destroy rmFails h sid))) sid = None"
    by (simp add: destroySession_cases clients_cleanupSession delete_conv' split: option.splits)
  have total: "\<exists>b. fst (destroySession destroy rmFails h sid) = Inr b"
    by (auto simp: destroySession_cases split: option.splits)
  have success: "(fst (destroySession destroy rmFails h sid) = Inr True)
       = (\<exists>c. map_of (clients h) sid = Some c \<and> destroy c = None)"
    by (auto simp: destroySession_cases split: option.splits)
  have again: "destroySession destroy rmFails (snd (destroySession destroy rmFails h sid)) sid
       = (Inr False, snd (destroySession destroy rmFails h sid))"
    using absent by (simp add: destroySession_def [of _ _ "snd (destroySession destroy rmFails h sid)"])
  from total absent success again show ?thesis by blast
qed

text \<open>A registered session whose adapter throws on \<open>destroy\<close>: the result is
  \<open>false\<close> and the session is gone from the registry.\<close>

theorem destroySession_total_absent_witness:
  "fst (destroySession destroyFails rmOk oneClient (ascii ''s1'')) = Inr False
   \<and> map_of (clients (snd (destroySession destroyFails rmOk oneClient (ascii ''s1'')))) (ascii ''s1'') = None"
  using destroySession_total_absent [of destroyFails rmOk oneClient "ascii ''s1''"]
  by (simp add: destroySession_cases oneClient_def destroyFails_def)

text \<open>
  Claim C6 as stated says the second of two calls still returns success. With a
  registered session and an adapter that tears down cleanly, the first call returns
  \<open>true\<close> and the second returns \<open>false\<close>, the value the function also returns when
  destruction failed.
\<close>

theorem destroySession_twice_counterexample:
  "fst (destroySession destroyOk rmOk
          (snd (destroySession destroyOk rmOk oneClient (ascii ''s1''))) (ascii ''s1'')) = Inr False
   \<and> fst (destroySession destroyOk rmOk oneClient (ascii ''s1'')) = Inr True"
  by (simp add: destroySession_cases oneClient_def destroyOk_def clients_cleanupSession)

subsection \<open>AIReply and GeminiAI: rate limit, history, language\<close>

text \<open>
  Claim C1 describes a fixed-window counter that allows the first two attempts of a
  window. \<open>checkRateLimit\<close> does not do that: its condition
  \<open>userLimits.count >= parseInt(process.env.MESSAGE_RATE_LIMIT) || 2\<close> is
  \<open>(count >= limit) || 2\<close>, which is truthy whatever the count, the limit and the time
  are. So every attempt is denied, the first attempt of a contact included, and the
  counter is never stored.
\<close>

theorem checkRateLimit_always_denies:
  "fst (checkRateLimit envLimit now limits fromNumber) = False
   \<and> checkRateLimit envLimit now Map.empty fromNumber = (False, Map.empty)"
  by (simp add: checkRateLimit_def Let_def js_or_def split: option.splits)

text \<open>
  \<open>GeminiAI.canReply\<close> keeps no counter either: with the default of two messages a
  minute it allows a reply to a contact that has none yet, and otherwise when more than
  30 seconds have passed since the last one. Two replies at least that far apart and a
  third attempt within 60 seconds of the first: the third is denied.
\<close>

lemma canReply_default:
  "canReply None now lastReply contactNumber =
     (case lastReply contactNumber of None \<Rightarrow> True | Some t \<Rightarrow> t = 0 \<or> 30000 < now - t)"
proof (cases "lastReply contactNumber")
  case None
  then show ?thesis by (simp add: canReply_def)
next
  case (Some t)
  have "(30000 < real_of_int (now - t)) = (30000 < now - t)" by linarith
  with Some show ?thesis by (auto simp: canReply_def maxMessagesPerMinute_def)
qed

lemma canReply_third_in_window:
  assumes "t1 \<noteq> 0" "t2 \<noteq> 0"
    and second: "canReply None t2 [c \<mapsto> t1] c"
    and window: "t3 - t1 \<le> 60000"
  shows "\<not> canReply None t3 [c \<mapsto> t2] c"
  using assms by (simp add: canReply_default)

lemma getConversationHistory_update:
  "getConversationHistory (updateConversationHistory now hist c u a l) c =
     (if length (getConversationHistory hist c) < 10
      then getConversationHistory hist c @ [\<lparr>userMessage = u, aiReply = a, language = l, timestamp = now\<rparr>]
      else tl (getConversationHistory hist c @ [\<lparr>userMessage = u, aiReply = a, language = l, timestamp = now\<rparr>]))"
  by (simp add: updateConversationHistory_def getConversationHistory_def Let_def)

lemma updateConversationHistory_other:
  "k \<noteq> c \<Longrightarrow> updateConversationHistory now hist c u a l k = hist k"
  by (simp add: updateConversationHistory_def Let_def)

lemma historyBounded_update:
  assumes "historyBounded hist"
  shows "historyBounded (updateConversationHistory now hist c u a l)"
proof -
  have len: "length (getConversationHistory hist c) \<le> 10"
    using assms by (auto simp: historyBounded_def getConversationHistory_def split: option.splits)
  show ?thesis
    unfolding historyBounded_def
  proof (intro allI impI)
    fix k h
    assume h: "updateConversationHistory now hist c u a l k = Some h"
    show "length h \<le> 10"
    proof (cases "k = c")
      case True
      with h have "h = getConversationHistory (updateConversationHistory now hist c u a l) c"
        by (simp add: getConversationHistory_def)
      with len show ?thesis by (simp add: getConversationHistory_update)
    next
      case False
      with h have "hist k = Some h" by (simp add: updateConversationHistory_other)
      with assms show ?thesis by (simp add: historyBounded_def)
    qed
  qed
qed

lemma historyBounded_applyHistoryOp:
  "historyBounded (conversationHistory st) \<Longrightarrow> historyBounded (conversationHistory (applyHistoryOp st op))"
proof (cases op)
  case (UpdateHistory now c u a l)
  assume "historyBounded (conversationHistory st)"
  then show ?thesis using UpdateHistory by (simp add: historyBounded_update)
next
  case (ClearHistory c)
  assume "historyBounded (conversationHistory st)"
  then show ?thesis using ClearHistory by (simp add: historyBounded_def clearHistory_def)
next
  case (CleanupOld now)
  assume "historyBounded (conversationHistory st)"
  then show ?thesis using CleanupOld
    by (auto simp: historyBounded_def cleanupOldConversations_def split: option.splits if_splits)
next
  case Shutdown
  then show ?thesis by (simp add: historyBounded_def shutdown_def)
qed

lemma historyBounded_run:
  "historyBounded (conversationHistory st) \<Longrightarrow> historyBounded (conversationHistory (foldl applyHistoryOp st ops))"
  by (induction ops arbitrary: st) (simp_all add: historyBounded_applyHistoryOp)

lemma getChatHistory_update:
  "getChatHistory (updateChatHistory now hist c u b) c =
     (let h = getChatHistory hist c @ [\<lparr>entryType = User, message = u, entryTime = now\<rparr>,
                                        \<lparr>entryType = Bot, message = b, entryTime = now\<rparr>]
      in drop (length h - 10) h)"
  by (simp add: updateChatHistory_def getChatHistory_def Let_def)

lemma historyBounded_updateChat:
  assumes "historyBounded hist"
  shows "historyBounded (updateChatHistory now hist c u b)"
  using assms by (simp add: historyBounded_def updateChatHistory_def Let_def)

lemma historyBounded_applyChatOp:
  "historyBounded (chatHistory st) \<Longrightarrow> historyBounded (chatHistory (applyChatOp st op))"
proof (cases op)
  case (UpdateChat now c u b)
  assume "historyBounded (chatHistory st)"
  then show ?thesis using UpdateChat by (simp add: historyBounded_updateChat)
next
  case (ClearChat c)
  assume "historyBounded (chatHistory st)"
  then show ?thesis using ClearChat by (simp add: historyBounded_def clearChatHistory_def)
next
  case (CleanupChat now)
  assume "historyBounded (chatHistory st)"
  then show ?thesis using CleanupChat
    by (auto simp: historyBounded_def cleanup_def split: option.splits if_splits)
qed

lemma historyBounded_runChat:
  "historyBounded (chatHistory st) \<Longrightarrow> historyBounded (chatHistory (foldl applyChatOp st ops))"
  by (induction ops arbitrary: st) (simp_all add: historyBounded_applyChatOp)

lemma getChatHistory_update_room:
  assumes "length (getChatHistory hist c) \<le> 8"
  shows "getChatHistory (updateChatHistory now hist c u b) c
           = getChatHistory hist c @ [\<lparr>entryType = User, message = u, entryTime = now\<rparr>,
                                      \<lparr>entryType = Bot, message = b, entryTime = now\<rparr>]"
  using assms by (simp add: getChatHistory_update Let_def)

lemma getChatHistory_update_full:
  assumes "length (getChatHistory hist c) = 10"
  shows "getChatHistory (updateChatHistory now hist c u b) c
           = drop 2 (getChatHistory hist c) @ [\<lparr>entryType = User, message = u, entryTime = now\<rparr>,
                                               \<lparr>entryType = Bot, message = b, entryTime = now\<rparr>]"
  using assms by (simp add: getChatHistory_update Let_def)

lemma updateChatHistory_other:
  "k \<noteq> c \<Longrightarrow> updateChatHistory now hist c u b k = hist k"
  by (simp add: updateChatHistory_def Let_def)

lemma five_exchanges:
  "getChatHistory (foldl recordExchange Map.empty [1, 2, 3, 4, 5]) (ascii ''c'')
     = [userEntry 1, botEntry 1, userEntry 2, botEntry 2, userEntry 3, botEntry 3,
        userEntry 4, botEntry 4, userEntry 5, botEntry 5]"
  by (simp add: recordExchange_def updateChatHistory_def getChatHistory_def userEntry_def
      botEntry_def Let_def)

text \<open>
  Claim C2, as amended. Every contact's history is kept in insertion order and never
  holds more than 10 entries, under every operation that writes it and every run of such
  operations from the empty state. In \<open>AIReply\<close> an entry is a turn:
  \<open>updateConversationHistory\<close> appends the new turn, and when the history already holds
  10 turns the oldest is dropped and the other turns keep their order, followed by the
  new one. In \<open>GeminiAI\<close> a turn is stored as two entries, the user's message and the
  reply: \<open>updateChatHistory\<close> appends both while there is room for them, and when the
  history already holds 10 entries (5 turns) the two entries of the oldest turn are
  dropped and the others keep their order, followed by the new two; in general it keeps
  the last 10 of the old entries followed by the new two. The histories of other
  contacts are untouched.
\<close>

theorem history_bounded_fifo:
  "(historyBounded (conversationHistory st)
      \<longrightarrow> historyBounded (conversationHistory (applyHistoryOp st op)))
   \<and> historyBounded (conversationHistory (foldl applyHistoryOp emptyAIReply ops))
   \<and> (length (getConversationHistory hist c) < 10 \<longrightarrow>
        getConversationHistory (updateConversationHistory now hist c u a l) c
          = getConversationHistory hist c
              @ [\<lparr>userMessage = u, aiReply = a, language = l, timestamp = now\<rparr>])
   \<and> (length (getConversationHistory hist c) = 10 \<longrightarrow>
        getConversationHistory (updateConversationHistory now hist c u a l) c
          = tl (getConversationHistory hist c)
              @ [\<lparr>userMessage = u, aiReply = a, language = l, timestamp = now\<rparr>])
   \<and> (\<forall>k. k \<noteq> c \<longrightarrow> updateConversationHistory now hist c u a l k = hist k)
   \<and> (historyBounded (chatHistory gst) \<longrightarrow> historyBounded (chatHistory (applyChatOp gst gop)))
   \<and> historyBounded (chatHistory (foldl applyChatOp emptyGemini gops))
   \<and> (length (getChatHistory ghist c) \<le> 8 \<longrightarrow>
        getChatHistory (updateChatHistory now ghist c u b) c
          = getChatHistory ghist c
              @ [\<lparr>entryType = User, message = u, entryTime = now\<rparr>,
                 \<lparr>entryType = Bot, message = b, entryTime = now\<rparr>])
   \<and> (length (getChatHistory ghist c) = 10 \<longrightarrow>
        getChatHistory (updateChatHistory now ghist c u b) c
          = drop 2 (getChatHistory ghist c)
              @ [\<lparr>entryType = User, message = u, entryTime = now\<rparr>,
                 \<lparr>entryType = Bot, message = b, entryTime = now\<rparr>])
   \<and> getChatHistory (updateChatHistory now ghist c u b) c
        = (let h = getChatHistory ghist c
                     @ [\<lparr>entryType = User, message = u, entryTime = now\<rparr>,
                        \<lparr>entryType = Bot, message = b, entryTime = now\<rparr>]
           in drop (length h - 10) h)
   \<and> (\<forall>k. k \<noteq> c \<longrightarrow> updateChatHistory now ghist c u b k = ghist k)"
proof (intro conjI impI allI)
  assume "historyBounded (conversationHistory st)"
  then show "historyBounded (conversationHistory (applyHistoryOp st op))"
    by (rule historyBounded_applyHistoryOp)
next
  have "historyBounded (conversationHistory emptyAIReply)"
    by (simp add: historyBounded_def emptyAIReply_def)
  then show "historyBounded (conversationHistory (foldl applyHistoryOp emptyAIReply ops))"
    by (rule historyBounded_run)
next
  assume "length (getConversationHistory hist c) < 10"
  then show "getConversationHistory (updateConversationHistory now hist c u a l) c
          = getConversationHistory hist c
              @ [\<lparr>userMessage = u, aiReply = a, language = l, timestamp = now\<rparr>]"
    by (simp add: getConversationHistory_update)
next
  assume "length (getConversationHistory hist c) = 10"
  then show "getConversationHistory (updateConversationHistory now hist c u a l) c
          = tl (getConversationHistory hist c)
              @ [\<lparr>userMessage = u, aiReply = a, language = l, timestamp = now\<rparr>]"
    by (cases "getConversationHistory hist c") (simp_all add: getConversationHistory_update)
next
  fix k assume "k \<noteq> c"
  then show "updateConversationHistory now hist c u a l k = hist k"
    by (rule updateConversationHistory_other)
next
  assume "historyBounded (chatHistory gst)"
  then show "historyBounded (chatHistory (applyChatOp gst gop))"
    by (rule historyBounded_applyChatOp)
next
  have "historyBounded (chatHistory emptyGemini)"
    by (simp add: historyBounded_def emptyGemini_def)
  then show "historyBounded (chatHistory (foldl applyChatOp emptyGemini gops))"
    by (rule historyBounded_runChat)
next
  assume "length (getChatHistory ghist c) \<le> 8"
  then show "getChatHistory (updateChatHistory now ghist c u b) c
          = getChatHistory ghist c
              @ [\<lparr>entryType = User, message = u, entryTime = now\<rparr>,
                 \<lparr>entryType = Bot, message = b, entryTime = now\<rparr>]"
    by (rule getChatHistory_update_room)
next
  assume "length (getChatHistory ghist c) = 10"
  then show "getChatHistory (updateChatHistory now ghist c u b) c
          = drop 2 (getChatHistory ghist c)
              @ [\<lparr>entryType = User, message = u, entryTime = now\<rparr>,
                 \<lparr>entryType = Bot, message = b, entryTime = now\<rparr>]"
    by (rule getChatHistory_update_full)
next
  show "getChatHistory (updateChatHistory now ghist c u b) c
        = (let h = getChatHistory ghist c
                     @ [\<lparr>entryType = User, message = u, entryTime = now\<rparr>,
                        \<lparr>entryType = Bot, message = b, entryTime = now\<rparr>]
           in drop (length h - 10) h)"
    by (rule getChatHistory_update)
next
  fix k assume "k \<noteq> c"
  then show "updateChatHistory now ghist c u b k = ghist k"
    by (rule updateChatHistory_other)
qed

text \<open>In \<open>AIReply\<close>, a history of the turns 1 to 10 becomes the turns 2 to 11, and the
  first turn of a contact is stored alone. In \<open>GeminiAI\<close>, after the exchanges 1 to 5 the
  history is full, and storing the exchange 6 leaves the exchanges 2 to 6; the first
  exchange of a contact is stored as its two entries.\<close>

theorem history_bounded_fifo_witness:
  "getConversationHistory
     (updateConversationHistory 11 [ascii ''c'' \<mapsto> map sampleTurn [1, 2, 3, 4, 5, 6, 7, 8, 9, 10]]
        (ascii ''c'') (ascii ''hi'') (ascii ''hello'') English) (ascii ''c'')
     = map sampleTurn [2, 3, 4, 5, 6, 7, 8, 9, 10, 11]
   \<and> getConversationHistory
       (updateConversationHistory 1 Map.empty (ascii ''c'') (ascii ''hi'') (ascii ''hello'') English)
       (ascii ''c'')
     = [sampleTurn 1]
   \<and> historyBounded (conversationHistory
        (applyHistoryOp emptyAIReply (UpdateHistory 1 (ascii ''c'') (ascii ''hi'') (ascii ''hello'') English)))
   \<and> historyBounded (chatHistory
        (applyChatOp emptyGemini (UpdateChat 1 (ascii ''c'') (ascii ''hi'') (ascii ''hello''))))
   \<and> getChatHistory
       (updateChatHistory 6 (foldl recordExchange Map.empty [1, 2, 3, 4, 5])
          (ascii ''c'') (ascii ''hi'') (ascii ''hello'')) (ascii ''c'')
     = [userEntry 2, botEntry 2, userEntry 3, botEntry 3, userEntry 4, botEntry 4,
        userEntry 5, botEntry 5, userEntry 6, botEntry 6]
   \<and> getChatHistory
       (updateChatHistory 1 Map.empty (ascii ''c'') (ascii ''hi'') (ascii ''hello'')) (ascii ''c'')
     = [userEntry 1, botEntry 1]"
proof -
  note t = history_bounded_fifo [where hist = "[ascii ''c'' \<mapsto> map sampleTurn [1, 2, 3, 4, 5, 6, 7, 8, 9, 10]]"
      and c = "ascii ''c''" and now = 11 and u = "ascii ''hi''" and a = "ascii ''hello''" and l = English
      and st = emptyAIReply and op = "UpdateHistory 1 (ascii ''c'') (ascii ''hi'') (ascii ''hello'') English"
      and gst = emptyGemini and gop = "UpdateChat 1 (ascii ''c'') (ascii ''hi'') (ascii ''hello'')"
      and ghist = Map.empty and b = "ascii ''hello''"]
  note e = history_bounded_fifo [where hist = Map.empty
      and c = "ascii ''c''" and now = 1 and u = "ascii ''hi''" and a = "ascii ''hello''" and l = English
      and ghist = Map.empty and b = "ascii ''hello''"]
  note g = history_bounded_fifo [where ghist = "foldl recordExchange Map.empty [1, 2, 3, 4, 5]"
      and c = "ascii ''c''" and now = 6 and u = "ascii ''hi''" and b = "ascii ''hello''"]
  have full: "length (getChatHistory (foldl recordExchange Map.empty [1, 2, 3, 4, 5]) (ascii ''c'')) = 10"
    by (simp only: five_exchanges) simp
  have 1: "getConversationHistory
     (updateConversationHistory 11 [ascii ''c'' \<mapsto> map sampleTurn [1, 2, 3, 4, 5, 6, 7, 8, 9, 10]]
        (ascii ''c'') (ascii ''hi'') (ascii ''hello'') English) (ascii ''c'')
     = map sampleTurn [2, 3, 4, 5, 6, 7, 8, 9, 10, 11]"
    using t by (simp add: getConversationHistory_def sampleTurn_def)
  have 2: "getConversationHistory
       (updateConversationHistory 1 Map.empty (ascii ''c'') (ascii ''hi'') (ascii ''hello'') English)
       (ascii ''c'')
     = [sampleTurn 1]"
    using e by (simp add: getConversationHistory_def sampleTurn_def)
  have 3: "historyBounded (conversationHistory
        (applyHistoryOp emptyAIReply (UpdateHistory 1 (ascii ''c'') (ascii ''hi'') (ascii ''hello'') English)))"
    using t by (simp add: historyBounded_def emptyAIReply_def)
  have 4: "historyBounded (chatHistory
        (applyChatOp emptyGemini (UpdateChat 1 (ascii ''c'') (ascii ''hi'') (ascii ''hello''))))"
    using t by (simp add: historyBounded_def emptyGemini_def)
  from g full have "getChatHistory
       (updateChatHistory 6 (foldl recordExchange Map.empty [1, 2, 3, 4, 5])
          (ascii ''c'') (ascii ''hi'') (ascii ''hello'')) (ascii ''c'')
     = drop 2 (getChatHistory (foldl recordExchange Map.empty [1, 2, 3, 4, 5]) (ascii ''c''))
         @ [\<lparr>entryType = User, message = ascii ''hi'', entryTime = 6\<rparr>,
            \<lparr>entryType = Bot, message = ascii ''hello'', entryTime = 6\<rparr>]"
    by blast
  then have 5: "getChatHistory
       (updateChatHistory 6 (foldl recordExchange Map.empty [1, 2, 3, 4, 5])
          (ascii ''c'') (ascii ''hi'') (ascii ''hello'')) (ascii ''c'')
     = [userEntry 2, botEntry 2, userEntry 3, botEntry 3, userEntry 4, botEntry 4,
        userEntry 5, botEntry 5, userEntry 6, botEntry 6]"
    by (simp only: five_exchanges) (simp add: userEntry_def botEntry_def)
  have 6: "getChatHistory
       (updateChatHistory 1 Map.empty (ascii ''c'') (ascii ''hi'') (ascii ''hello'')) (ascii ''c'')
     = [userEntry 1, botEntry 1]"
    using e by (simp add: getChatHistory_def userEntry_def botEntry_def)
  from 1 2 3 4 5 6 show ?thesis by blast
qed

text \<open>
  Claim C2 as stated has the first turn evicted when the 11th is inserted. In
  \<open>GeminiAI\<close> each exchange takes two of the 10 places: after six exchanges of one
  contact the history holds the exchanges 2 to 6, and both entries of the first exchange
  are gone.
\<close>

theorem chatHistory_sixth_turn_counterexample:
  "getChatHistory (foldl recordExchange Map.empty [1, 2, 3, 4, 5, 6]) (ascii ''c'')
     = [userEntry 2, botEntry 2, userEntry 3, botEntry 3, userEntry 4, botEntry 4,
        userEntry 5, botEntry 5, userEntry 6, botEntry 6]
   \<and> userEntry 1 \<notin> set (getChatHistory (foldl recordExchange Map.empty [1, 2, 3, 4, 5, 6]) (ascii ''c''))
   \<and> botEntry 1 \<notin> set (getChatHistory (foldl recordExchange Map.empty [1, 2, 3, 4, 5, 6]) (ascii ''c''))"
  by (simp add: recordExchange_def updateChatHistory_def getChatHistory_def userEntry_def
      botEntry_def Let_def)

lemma sees_append:
  "list_ex P line \<Longrightarrow> \<not> list_ex isLineTerminator line \<Longrightarrow> sees P (line @ post)"
  by (induction line) auto

lemma hinglishTest_here: "hinglishAt t \<Longrightarrow> hinglishTest t"
  by (cases t) simp_all

lemma hinglishTest_suffix: "hinglishAt t \<Longrightarrow> hinglishTest (pre @ t)"
  by (induction pre) (simp_all add: hinglishTest_here)

lemma hinglishTest_same_line:
  assumes "list_ex isLatin line" "list_ex isDevanagari line" "\<not> list_ex isLineTerminator line"
  shows "hinglishTest (pre @ line @ post)"
proof -
  have "hinglishAt (line @ post)"
    using assms by (simp add: hinglishAt_def sees_append)
  then show ?thesis by (rule hinglishTest_suffix)
qed

text \<open>
  Claim C8, as amended. \<open>detectLanguage\<close> tests the \<open>hinglish\<close> pattern before any
  single-script pattern. Whenever the cleaned text (URLs and digits removed, trimmed) has
  a Latin letter and a Devanagari character on one line, the result is \<open>hinglish\<close>; when
  no pattern matches, the result is \<open>hinglish\<close> too. In \<open>GeminiAI\<close>, a text with a
  Latin letter and a Devanagari character is \<open>hinglish\<close>, and so is a text with neither.
\<close>

theorem detectLanguage_mixing_first:
  "(hinglishTest (cleanText text) \<longrightarrow> detectLanguage text = Hinglish)
   \<and> (cleanText text = pre @ line @ post \<and> list_ex isLatin line \<and> list_ex isDevanagari line
        \<and> \<not> list_ex isLineTerminator line \<longrightarrow> detectLanguage text = Hinglish)
   \<and> (\<not> hinglishTest (cleanText text) \<and> \<not> list_ex isDevanagari (cleanText text)
        \<and> \<not> list_ex isArabic (cleanText text) \<and> \<not> list_ex isBengali (cleanText text)
        \<and> \<not> list_ex isTamil (cleanText text) \<and> \<not> list_ex isGujarati (cleanText text)
        \<and> \<not> list_all isEnglishChar (cleanText text) \<longrightarrow> detectLanguage text = Hinglish)
   \<and> (list_ex isLatin text \<and> list_ex isDevanagari text \<longrightarrow> gemini_detectLanguage text = Hinglish)
   \<and> (\<not> list_ex isLatin text \<and> \<not> list_ex isDevanagari text \<longrightarrow> gemini_detectLanguage text = Hinglish)"
proof (intro conjI impI)
  assume "hinglishTest (cleanText text)"
  then show "detectLanguage text = Hinglish" by (simp add: detectLanguage_def)
next
  assume a: "cleanText text = pre @ line @ post \<and> list_ex isLatin line \<and> list_ex isDevanagari line
        \<and> \<not> list_ex isLineTerminator line"
  then have "hinglishTest (cleanText text)" by (simp add: hinglishTest_same_line)
  then show "detectLanguage text = Hinglish" by (simp add: detectLanguage_def)
next
  assume "\<not> hinglishTest (cleanText text) \<and> \<not> list_ex isDevanagari (cleanText text)
        \<and> \<not> list_ex isArabic (cleanText text) \<and> \<not> list_ex isBengali (cleanText text)
        \<and> \<not> list_ex isTamil (cleanText text) \<and> \<not> list_ex isGujarati (cleanText text)
        \<and> \<not> list_all isEnglishChar (cleanText text)"
  then show "detectLanguage text = Hinglish" by (simp add: detectLanguage_def)
next
  assume "list_ex isLatin text \<and> list_ex isDevanagari text"
  then show "gemini_detectLanguage text = Hinglish" by (simp add: gemini_detectLanguage_def)
next
  assume "\<not> list_ex isLatin text \<and> \<not> list_ex isDevanagari text"
  then show "gemini_detectLanguage text = Hinglish" by (simp add: gemini_detectLanguage_def)
qed

lemmas js_eval = ascii_def js_startsWith_def isDigit_def isWhiteSpace_def isLineTerminator_def
  trim_def matchUrl_def removeDigits_def cleanText_def isLatin_def isDevanagari_def isArabic_def
  isBengali_def isTamil_def isGujarati_def isEnglishChar_def upper_def markers_def
  startsMarker_def hinglishAt_def detectLanguage_def gemini_detectLanguage_def Let_def

lemma cleanText_mixedDevanagari: "cleanText mixedDevanagari = mixedDevanagari"
  by (simp add: js_eval mixedDevanagari_def)

lemma cleanText_emoji: "cleanText [55357, 56832] = [55357, 56832]"
  by (simp add: js_eval)

lemma mixedDevanagari_scripts:
  "list_ex isLatin mixedDevanagari \<and> list_ex isDevanagari mixedDevanagari
   \<and> \<not> list_ex isLineTerminator mixedDevanagari"
  by (simp add: mixedDevanagari_def ascii_def isLatin_def isDevanagari_def isLineTerminator_def)

lemma emoji_no_pattern:
  "\<not> hinglishTest [55357, 56832] \<and> \<not> list_ex isDevanagari [55357, 56832]
   \<and> \<not> list_ex isArabic [55357, 56832] \<and> \<not> list_ex isBengali [55357, 56832]
   \<and> \<not> list_ex isTamil [55357, 56832] \<and> \<not> list_ex isGujarati [55357, 56832]
   \<and> \<not> list_all isEnglishChar [55357, 56832] \<and> \<not> list_ex isLatin [55357, 56832]"
  by (simp add: js_eval)

text \<open>\<open>hello\<close> followed by a Devanagari word is \<open>hinglish\<close> in both classes; an emoji
  alone matches no pattern and is \<open>hinglish\<close>.\<close>

theorem detectLanguage_mixing_first_witness:
  "detectLanguage mixedDevanagari = Hinglish
   \<and> gemini_detectLanguage mixedDevanagari = Hinglish
   \<and> detectLanguage [55357, 56832] = Hinglish
   \<and> gemini_detectLanguage [55357, 56832] = Hinglish"
proof -
  have c: "cleanText mixedDevanagari = [] @ mixedDevanagari @ []"
    by (simp add: cleanText_mixedDevanagari)
  note m = detectLanguage_mixing_first [of mixedDevanagari "[]" mixedDevanagari "[]"]
  note e = detectLanguage_mixing_first [of "[55357, 56832]" "[]" "[]" "[]"]
  from m c mixedDevanagari_scripts have 1: "detectLanguage mixedDevanagari = Hinglish" by blast
  from m mixedDevanagari_scripts have 2: "gemini_detectLanguage mixedDevanagari = Hinglish" by blast
  from e emoji_no_pattern cleanText_emoji have 3: "detectLanguage [55357, 56832] = Hinglish" by metis
  from e emoji_no_pattern have 4: "gemini_detectLanguage [55357, 56832] = Hinglish" by blast
  from 1 2 3 4 show ?thesis by blast
qed

text \<open>
  Claim C8 as stated covers every pair of scripts. \<open>hello\<close> followed by a word in
  Arabic script holds Latin letters and Arabic-script characters; \<open>AIReply\<close> classifies
  it as \<open>urdu\<close> and \<open>GeminiAI\<close> as \<open>english\<close>, both monolingual.
\<close>

theorem detectLanguage_two_scripts_counterexample:
  "list_ex isLatin mixedArabic \<and> list_ex isArabic mixedArabic
   \<and> detectLanguage mixedArabic = Urdu \<and> gemini_detectLanguage mixedArabic = English"
  by (simp add: js_eval mixedArabic_def)

text \<open>The lookaheads of the \<open>hinglish\<close> pattern do not cross a line terminator: a Latin
  word and a Devanagari word on two lines are \<open>hindi\<close>.\<close>

lemma detectLanguage_two_lines: "detectLanguage mixedTwoLines = Hindi"
  by (simp add: js_eval mixedTwoLines_def)

subsection \<open>AIReply and GeminiAI: the fallback reply\<close>

lemma completionFails_iff:
  "completionFails outcome = (callGeminiAPI outcome = None \<or> callGeminiAPI outcome = Some [])"
  by (cases outcome) (simp_all add: completionFails_def callGeminiAPI_def)

lemma generateReply_allowed_fails:
  "completionFails outcome \<Longrightarrow>
   generateReply_allowed later outcome st msg fromNumber
     = (Some (getFallbackReply (detectLanguage msg)), st)"
  by (auto simp: completionFails_iff generateReply_allowed_def Let_def)

lemma generateReply_history_on_failure:
  "completionFails outcome \<Longrightarrow>
   conversationHistory (snd (generateReply envLimit now later outcome st msg fromNumber))
     = conversationHistory st"
  by (simp add: generateReply_def generateReply_allowed_fails split: prod.splits bool.splits)

lemma getFallbackReply_nonempty: "getFallbackReply lang \<noteq> []"
  by (cases lang) (simp_all add: getFallbackReply_def ascii_def)

lemma gemini_getFallbackReply_member:
  assumes "0 \<le> r" "r < 1"
  shows "\<exists>reply. gemini_getFallbackReply r = Some reply \<and> reply \<in> set fallbackReplies"
proof -
  have len: "length fallbackReplies = 5" by (simp add: fallbackReplies_def)
  from assms have "0 \<le> \<lfloor>r * 5\<rfloor>" by simp
  moreover from assms have "\<lfloor>r * 5\<rfloor> < 5" by (simp add: floor_less_iff)
  ultimately have "0 \<le> \<lfloor>r * 5\<rfloor> \<and> nat \<lfloor>r * 5\<rfloor> < 5" by (simp add: nat_less_iff)
  then show ?thesis
    by (simp add: gemini_getFallbackReply_def len Let_def)
qed

text \<open>
  Claim C3, as amended. When the completion call fails, \<open>generateReply\<close> answers with a
  fallback reply and raises nothing, and the conversation history stays as it was: the
  fallback exchange is not recorded. In \<open>AIReply\<close>, on the path after the rate-limit
  check, the fallback is the non-empty text of the detected language category, and
  \<open>generateReply\<close> as a whole leaves the history unchanged. In \<open>GeminiAI\<close>, for a contact
  that may be answered, the fallback is one of the five fixed replies, picked by
  \<open>Math.random()\<close>, and the state is unchanged.
\<close>

theorem generateReply_fallback_not_recorded:
  "(completionFails outcome \<longrightarrow>
      generateReply_allowed later outcome st msg fromNumber
        = (Some (getFallbackReply (detectLanguage msg)), st)
      \<and> getFallbackReply (detectLanguage msg) \<noteq> []
      \<and> conversationHistory (snd (generateReply envLimit now later outcome st msg fromNumber))
          = conversationHistory st)
   \<and> (canReply envMax now (lastReplyTime gst) contactNumber \<and> 0 \<le> r \<and> r < 1 \<longrightarrow>
        (\<exists>reply. reply \<in> set fallbackReplies
           \<and> gemini_generateReply envMax now later r ModelThrows gst msg contactNumber
               = (Some reply, gst)))"
proof (intro conjI impI)
  assume f: "completionFails outcome"
  then show "generateReply_allowed later outcome st msg fromNumber
        = (Some (getFallbackReply (detectLanguage msg)), st)"
    by (rule generateReply_allowed_fails)
  show "getFallbackReply (detectLanguage msg) \<noteq> []" by (rule getFallbackReply_nonempty)
  from f show "conversationHistory (snd (generateReply envLimit now later outcome st msg fromNumber))
          = conversationHistory st"
    by (rule generateReply_history_on_failure)
next
  assume a: "canReply envMax now (lastReplyTime gst) contactNumber \<and> 0 \<le> r \<and> r < 1"
  then obtain reply where "gemini_getFallbackReply r = Some reply" "reply \<in> set fallbackReplies"
    using gemini_getFallbackReply_member by blast
  with a show "\<exists>reply. reply \<in> set fallbackReplies
           \<and> gemini_generateReply envMax now later r ModelThrows gst msg contactNumber
               = (Some reply, gst)"
    by (auto simp: gemini_generateReply_def)
qed

lemma detectLanguage_hello: "detectLanguage (ascii ''hello'') = English"
  by (simp add: js_eval)

lemma canReply_first: "canReply envMax now Map.empty contactNumber"
  by (simp add: canReply_def)

lemma gemini_fallback_zero: "gemini_getFallbackReply 0 = Some (fallbackReplies ! 0)"
  by (simp add: gemini_getFallbackReply_def fallbackReplies_def)

text \<open>A first message \<open>hello\<close> whose completion call throws: the English fallback
  in \<open>AIReply\<close>, the first fixed reply in \<open>GeminiAI\<close> (for the random value 0).\<close>

theorem generateReply_fallback_not_recorded_witness:
  "generateReply_allowed 2000 ApiThrows emptyAIReply (ascii ''hello'') (ascii ''c'')
     = (Some (getFallbackReply English), emptyAIReply)
   \<and> gemini_generateReply None 1000 2000 0 ModelThrows emptyGemini (ascii ''hello'') (ascii ''c'')
     = (Some (fallbackReplies ! 0), emptyGemini)"
proof -
  have f: "completionFails ApiThrows" by (simp add: completionFails_def)
  have c: "canReply None 1000 (lastReplyTime emptyGemini) (ascii ''c'') \<and> (0::real) \<le> 0 \<and> (0::real) < 1"
    by (simp add: emptyGemini_def canReply_first)
  note t = generateReply_fallback_not_recorded [of ApiThrows 2000 emptyAIReply "ascii ''hello''"
      "ascii ''c''" None 1000 None emptyGemini "ascii ''c''" 0]
  from t f have 1: "generateReply_allowed 2000 ApiThrows emptyAIReply (ascii ''hello'') (ascii ''c'')
     = (Some (getFallbackReply English), emptyAIReply)"
    by (simp add: detectLanguage_hello)
  from t c obtain reply where
    "gemini_generateReply None 1000 2000 0 ModelThrows emptyGemini (ascii ''hello'') (ascii ''c'')
       = (Some reply, emptyGemini)" by blast
  moreover have "gemini_generateReply None 1000 2000 0 ModelThrows emptyGemini (ascii ''hello'') (ascii ''c'')
       = (gemini_getFallbackReply 0, emptyGemini)"
    using c by (simp add: gemini_generateReply_def)
  ultimately have 2: "gemini_generateReply None 1000 2000 0 ModelThrows emptyGemini (ascii ''hello'') (ascii ''c'')
     = (Some (fallbackReplies ! 0), emptyGemini)"
    by (simp add: gemini_fallback_zero)
  from 1 2 show ?thesis by blast
qed

text \<open>
  Claim C3 as stated says the fallback exchange is appended to the contact's history.
  For a first message whose completion call throws, both classes return a fallback reply
  and the contact's history is still empty afterwards.
\<close>

theorem generateReply_fallback_counterexample:
  "fst (gemini_generateReply None 1000 2000 0 ModelThrows emptyGemini (ascii ''hello'') (ascii ''c''))
     = Some (fallbackReplies ! 0)
   \<and> getChatHistory (chatHistory (snd (gemini_generateReply None 1000 2000 0 ModelThrows emptyGemini
         (ascii ''hello'') (ascii ''c'')))) (ascii ''c'') = []
   \<and> fst (generateReply_allowed 2000 ApiThrows emptyAIReply (ascii ''hello'') (ascii ''c''))
     = Some (getFallbackReply English)
   \<and> getConversationHistory (conversationHistory (snd (generateReply_allowed 2000 ApiThrows
         emptyAIReply (ascii ''hello'') (ascii ''c'')))) (ascii ''c'') = []
   \<and> getConversationHistory (conversationHistory (snd (generateReply None 1000 2000 ApiThrows
         emptyAIReply (ascii ''hello'') (ascii ''c'')))) (ascii ''c'') = []"
  by (simp add: gemini_generateReply_def canReply_first emptyGemini_def gemini_fallback_zero
      getChatHistory_def generateReply_allowed_def callGeminiAPI_def detectLanguage_hello
      emptyAIReply_def getConversationHistory_def generateReply_def checkRateLimit_def js_or_def
      js_ge_def Let_def)

subsection \<open>SessionManager: typing delay, pipeline, lifecycle\<close>

lemma baseDelay_between:
  assumes "0 \<le> r" "r < 1"
  shows "min (real_of_int (typingDelayMin envMin)) (real_of_int (typingDelayMax envMax))
           \<le> baseDelay envMin envMax r
         \<and> baseDelay envMin envMax r
           \<le> max (real_of_int (typingDelayMin envMin)) (real_of_int (typingDelayMax envMax))"
proof -
  define a where "a = real_of_int (typingDelayMin envMin)"
  define b where "b = real_of_int (typingDelayMax envMax)"
  have base: "baseDelay envMin envMax r = a + r * (b - a)"
    by (simp add: baseDelay_def a_def b_def)
  have "min a b \<le> a + r * (b - a) \<and> a + r * (b - a) \<le> max a b"
  proof (cases "a \<le> b")
    case True
    then have m: "min a b = a" "max a b = b" by simp_all
    from True assms have 1: "0 \<le> r * (b - a)" by simp
    have "r * (b - a) \<le> 1 * (b - a)"
      using True assms by (intro mult_right_mono) simp_all
    then have 2: "r * (b - a) \<le> b - a" by (simp only: mult_1)
    from 1 2 show ?thesis unfolding m by linarith
  next
    case False
    then have m: "min a b = b" "max a b = a" by simp_all
    from False assms have 1: "r * (b - a) \<le> 0" by (simp add: mult_le_0_iff)
    have "1 * (b - a) \<le> r * (b - a)"
      using False assms by (intro mult_right_mono_neg) simp_all
    then have 2: "b - a \<le> r * (b - a)" by (simp only: mult_1)
    from 1 2 show ?thesis unfolding m by linarith
  qed
  then show ?thesis by (simp add: base a_def b_def)
qed

text \<open>
  Claim C4. For every reply and typing configuration the delay is
  \<open>min(base + length * 30, max)\<close>, where the base delay lies between the configured
  minimum and maximum for every value \<open>0 \<le> r < 1\<close> of \<open>Math.random()\<close>. For a minimum
  of 1000, a maximum of 3000 (set, or by default) and a reply of 100 code units the delay
  is 3000 for every such \<open>r\<close>.
\<close>

theorem totalDelay_capped:
  "(0 \<le> r \<and> r < 1 \<longrightarrow>
      min (real_of_int (typingDelayMin envMin)) (real_of_int (typingDelayMax envMax))
        \<le> baseDelay envMin envMax r
      \<and> baseDelay envMin envMax r
        \<le> max (real_of_int (typingDelayMin envMin)) (real_of_int (typingDelayMax envMax)))
   \<and> totalDelay envMin envMax r reply
       = min (baseDelay envMin envMax r + real (length reply) * 30)
             (real_of_int (typingDelayMax envMax))
   \<and> (0 \<le> r \<and> r < 1 \<and> length reply = 100 \<longrightarrow>
        totalDelay (Some 1000) (Some 3000) r reply = 3000 \<and> totalDelay None None r reply = 3000)"
proof (intro conjI impI)
  assume "0 \<le> r \<and> r < 1"
  then show "min (real_of_int (typingDelayMin envMin)) (real_of_int (typingDelayMax envMax))
        \<le> baseDelay envMin envMax r"
    and "baseDelay envMin envMax r
        \<le> max (real_of_int (typingDelayMin envMin)) (real_of_int (typingDelayMax envMax))"
    using baseDelay_between by blast+
next
  show "totalDelay envMin envMax r reply
       = min (baseDelay envMin envMax r + real (length reply) * 30)
             (real_of_int (typingDelayMax envMax))"
    by (simp add: totalDelay_def charDelay_def)
next
  assume a: "0 \<le> r \<and> r < 1 \<and> length reply = 100"
  then have "0 \<le> r * 2000" by simp
  with a show "totalDelay (Some 1000) (Some 3000) r reply = 3000"
    by (simp add: totalDelay_def charDelay_def baseDelay_def typingDelayMin_def typingDelayMax_def)
  from a have "0 \<le> r * 2000" by simp
  with a show "totalDelay None None r reply = 3000"
    by (simp add: totalDelay_def charDelay_def baseDelay_def typingDelayMin_def typingDelayMax_def)
qed

text \<open>For \<open>r = 1/2\<close> the base delay is 2000; a reply of 100 code units waits 3000,
  a reply of 2 code units waits 2060.\<close>

theorem totalDelay_capped_witness:
  "totalDelay (Some 1000) (Some 3000) (1 / 2) (replicate 100 120) = 3000
   \<and> baseDelay (Some 1000) (Some 3000) (1 / 2) = 2000
   \<and> totalDelay (Some 1000) (Some 3000) (1 / 2) (ascii ''ok'') = 2060"
  using totalDelay_capped [of "1 / 2" "Some 1000" "Some 3000" "replicate 100 120"]
    totalDelay_capped [of "1 / 2" "Some 1000" "Some 3000" "ascii ''ok''"]
  by (simp add: baseDelay_def typingDelayMin_def typingDelayMax_def ascii_def)

text \<open>
  Claim C7. A message whose sender id contains \<open>@g.us\<close> (a group) is dropped by
  \<open>handleIncomingMessage\<close> before anything is done: no action is taken (no reply, no
  typing indicator), and the whole state is as before, so the chat history, the
  rate-limit times, the active chats and the count of sent messages are unchanged.
\<close>

theorem group_message_dropped:
  "js_includes (ascii ''@g.us'') (msgFrom msg) \<longrightarrow>
     handleIncomingMessage env (sm, ai) msg = ((sm, ai), [])
     \<and> snd (handleIncomingMessage env (sm, ai) msg) = []
     \<and> chatHistory (snd (fst (handleIncomingMessage env (sm, ai) msg))) = chatHistory ai
     \<and> lastReplyTime (snd (fst (handleIncomingMessage env (sm, ai) msg))) = lastReplyTime ai
     \<and> activeChats (fst (fst (handleIncomingMessage env (sm, ai) msg))) = activeChats sm
     \<and> messageCount (fst (fst (handleIncomingMessage env (sm, ai) msg))) = messageCount sm"
  by (simp add: handleIncomingMessage_def)

lemma js_includes_group: "js_includes (ascii ''@g.us'') (msgFrom groupMessage)"
  by (simp add: groupMessage_def ascii_def js_startsWith_def)

text \<open>A group message to a ready session, in an environment where a direct message
  would be answered.\<close>

theorem group_message_dropped_witness:
  "js_includes (ascii ''@g.us'') (msgFrom groupMessage)
   \<and> handleIncomingMessage sampleEnv (readySession, emptyGemini) groupMessage
       = ((readySession, emptyGemini), [])"
  using group_message_dropped [of groupMessage sampleEnv readySession emptyGemini]
    js_includes_group
  by blast

text \<open>The same environment and session with a direct message: the contact becomes
  active, the exchange is stored, the reply is sent after 1240 ms and counted.\<close>

lemma direct_message_answered:
  "handleIncomingMessage sampleEnv (readySession, emptyGemini) directMessage
     = ((readySession\<lparr>activeChats := [ascii ''919876543210''], messageCount := 1\<rparr>,
         \<lparr>chatHistory = [ascii ''919876543210'' \<mapsto>
             [\<lparr>entryType = User, message = ascii ''hello'', entryTime = 1700000002000\<rparr>,
              \<lparr>entryType = Bot, message = ascii ''hi there'', entryTime = 1700000002000\<rparr>]],
          lastReplyTime = [ascii ''919876543210'' \<mapsto> 1700000002000]\<rparr>),
        [GetContact, GetChat, TypingOn, Wait 1240, TypingOff, Reply (ascii ''hi there''),
         Emit (ascii ''message_reply'')])"
  by (simp add: handleIncomingMessage_def answerMessage_def sampleEnv_def directMessage_def
      readySession_def emptyGemini_def noThrow_def js_startsWith_def ascii_def trim_def
      isWhiteSpace_def orElse_def gemini_generateReply_def canReply_def updateChatHistory_def
      getChatHistory_def sendReplyWithTyping_def totalDelay_def baseDelay_def charDelay_def
      typingDelayMin_def typingDelayMax_def Let_def)

lemma onTimer_due:
  assumes "pendingRestarts sm = []" "now + 5000 \<le> t"
  shows "onTimer t destroyThrows initThrows (fst (onDisconnected now sm))
           = restartClient destroyThrows initThrows (sm\<lparr>isReady := False, pendingRestarts := []\<rparr>)"
  using assms by (simp add: onTimer_def onDisconnected_def)

lemma onTimer_early:
  assumes "pendingRestarts sm = []" "t < now + 5000"
  shows "onTimer t destroyThrows initThrows (fst (onDisconnected now sm))
           = (fst (onDisconnected now sm), [])"
  using assms by (simp add: onTimer_def onDisconnected_def)

lemma restartClient_recreates:
  "\<not> destroyThrows \<Longrightarrow>
   client (fst (restartClient destroyThrows initThrows sm)) = Some ()
   \<and> NewClient \<in> set (snd (restartClient destroyThrows initThrows sm))
   \<and> qrRetries (fst (restartClient destroyThrows initThrows sm)) = 0"
  by (simp add: restartClient_def initializeClient_def Let_def)

text \<open>
  Claim C9, as amended. \<open>stopClient\<close> registers no restart and creates no client; with
  a client present it marks the session not ready and calls \<open>destroy\<close>, and when that
  does not throw the client is cleared. The \<open>disconnected\<close> handler marks the session not
  ready and registers a restart due 5000 ms later, in every state: the callback does
  nothing before that time and runs \<open>restartClient\<close> from then on, which (when
  \<open>destroy\<close> does not throw) creates a new client with the retry counter at 0.
\<close>

theorem stop_schedules_nothing:
  "pendingRestarts (fst (stopClient destroyThrows sm)) = pendingRestarts sm
   \<and> NewClient \<notin> set (snd (stopClient destroyThrows sm))
   \<and> (client sm \<noteq> None \<longrightarrow> \<not> isReady (fst (stopClient destroyThrows sm)))
   \<and> (client sm \<noteq> None \<longrightarrow> DestroyClient \<in> set (snd (stopClient destroyThrows sm)))
   \<and> (\<not> destroyThrows \<longrightarrow> client (fst (stopClient destroyThrows sm)) = None)
   \<and> pendingRestarts (fst (onDisconnected now sm)) = pendingRestarts sm @ [now + 5000]
   \<and> \<not> isReady (fst (onDisconnected now sm))
   \<and> (pendingRestarts sm = [] \<and> t < now + 5000 \<longrightarrow>
        onTimer t destroyThrows initThrows (fst (onDisconnected now sm))
          = (fst (onDisconnected now sm), []))
   \<and> (pendingRestarts sm = [] \<and> now + 5000 \<le> t \<longrightarrow>
        onTimer t destroyThrows initThrows (fst (onDisconnected now sm))
          = restartClient destroyThrows initThrows (sm\<lparr>isReady := False, pendingRestarts := []\<rparr>))
   \<and> (\<not> destroyThrows \<longrightarrow>
        client (fst (restartClient destroyThrows initThrows sm)) = Some ()
        \<and> NewClient \<in> set (snd (restartClient destroyThrows initThrows sm))
        \<and> qrRetries (fst (restartClient destroyThrows initThrows sm)) = 0)"
proof (intro conjI impI)
  show "pendingRestarts (fst (stopClient destroyThrows sm)) = pendingRestarts sm"
    by (simp add: stopClient_def split: option.splits)
  show "NewClient \<notin> set (snd (stopClient destroyThrows sm))"
    by (simp add: stopClient_def split: option.splits)
  show "\<not> isReady (fst (stopClient destroyThrows sm))" if "client sm \<noteq> None"
    using that by (auto simp: stopClient_def split: option.splits)
  show "DestroyClient \<in> set (snd (stopClient destroyThrows sm))" if "client sm \<noteq> None"
    using that by (auto simp: stopClient_def split: option.splits)
  show "client (fst (stopClient destroyThrows sm)) = None" if "\<not> destroyThrows"
    using that by (simp add: stopClient_def split: option.splits)
  show "pendingRestarts (fst (onDisconnected now sm)) = pendingRestarts sm @ [now + 5000]"
    by (simp add: onDisconnected_def)
  show "\<not> isReady (fst (onDisconnected now sm))"
    by (simp add: onDisconnected_def)
  show "onTimer t destroyThrows initThrows (fst (onDisconnected now sm))
          = (fst (onDisconnected now sm), [])" if "pendingRestarts sm = [] \<and> t < now + 5000"
    using that by (simp add: onTimer_early)
  show "onTimer t destroyThrows initThrows (fst (onDisconnected now sm))
          = restartClient destroyThrows initThrows (sm\<lparr>isReady := False, pendingRestarts := []\<rparr>)"
    if "pendingRestarts sm = [] \<and> now + 5000 \<le> t"
    using that by (simp add: onTimer_due)
  show "client (fst (restartClient destroyThrows initThrows sm)) = Some ()"
    and "NewClient \<in> set (snd (restartClient destroyThrows initThrows sm))"
    and "qrRetries (fst (restartClient destroyThrows initThrows sm)) = 0"
    if "\<not> destroyThrows"
    using that restartClient_recreates by blast+
qed

lemmas lifecycle_eval = run_def onQr_def onAuthenticated_def onReady_def onDisconnected_def
  onAuthFailure_def stopClient_def restartClient_def initializeClient_def onTimer_def
  onStatsTick_def readySession_def maxQrRetries_def Let_def

text \<open>A ready session: stopping it clears the client and leaves nothing pending; a
  disconnect at 1000 is followed by the restart at 6000 and not at 5999.\<close>

theorem stop_schedules_nothing_witness:
  "run readySession [(1000, Stop False)]
     = readySession\<lparr>isReady := False, client := None\<rparr>
   \<and> pendingRestarts (run readySession [(1000, Disconnected)]) = [6000]
   \<and> run readySession [(1000, Disconnected), (5999, Timer False False)]
       = run readySession [(1000, Disconnected)]
   \<and> run readySession [(1000, Disconnected), (6000, Timer False False)]
       = readySession\<lparr>isReady := False\<rparr>"
  using stop_schedules_nothing [of False readySession 1000 5999 False]
    stop_schedules_nothing [of False readySession 1000 6000 False]
  by (simp add: lifecycle_eval)

text \<open>
  Claim C9 as stated says that after a stop no restart is ever scheduled. The manager
  keeps no record of a stop. First run: the stop's \<open>destroy\<close> throws, the adapter then
  reports a disconnect, and a restart is registered for 7000. Second run: a disconnect
  registers a restart, the session is stopped one second later, the callback still runs
  at 5000 and creates a new client, and that client's disconnect at 9000 registers the
  next restart.
\<close>

theorem stop_then_restart_counterexample:
  "pendingRestarts (run readySession [(1000, Stop True), (2000, Disconnected)]) = [7000]
   \<and> client (run readySession
        [(0, Disconnected), (1000, Stop False), (5000, Timer False False)]) = Some ()
   \<and> pendingRestarts (run readySession
        [(0, Disconnected), (1000, Stop False), (5000, Timer False False), (9000, Disconnected)])
       = [14000]"
  by (simp add: lifecycle_eval)

end
